theory Spec2Isabelle
  imports Complex_Main "HOL-Library.Word"
begin

section \<open>MikRoPlot: the Window class\<close>

text \<open>
  A shallow embedding of \<^verbatim>\<open>mikroplot::Window\<close> (window.cpp). The source holds two
  revisions of the file. Where a function differs between them, its two models carry the
  suffixes \<open>_old\<close> (first revision) and \<open>_new\<close> (second revision); a model without a
  suffix stands for code that reads the same in both revisions, or that exists only in
  the revision its section names.

  Conventions of the model:
  \<^item> \<^verbatim>\<open>assert\<close> is enabled: a failing assertion ends the call with \<open>AssertionFailed\<close>;
    a \<^verbatim>\<open>throw std::runtime_error(msg)\<close> ends it with \<open>RuntimeError msg\<close>.
  \<^item> \<^verbatim>\<open>float\<close> is idealised as \<open>real\<close>: rounding, infinities and NaN are not modelled.
  \<^item> Calls into OpenGL, GLFW, miniaudio and stb (and the repository's own thin wrappers
    \<^verbatim>\<open>Shader\<close>, \<^verbatim>\<open>FrameBuffer\<close>, \<^verbatim>\<open>checkGLError\<close>, \<^verbatim>\<open>quad\<close>) are assumed to return normally. What they
    answer (a window handle, the frame buffer size, the events delivered by a poll) is an
    explicit input of the model; what is handed to them (a texture, shader sources, the
    name of a PNG file) is an explicit output.
\<close>

subsection \<open>Machine integers\<close>

text \<open>
  A C++ \<^verbatim>\<open>int\<close> whose conversions matter is a 32-bit word read in two's complement
  (\<open>sint\<close>). A \<^verbatim>\<open>size_t\<close> is taken to have 64 bits; a \<^verbatim>\<open>size_t\<close> value is the natural
  number it denotes. Converting an \<^verbatim>\<open>int\<close> to \<^verbatim>\<open>size_t\<close> reduces it modulo \<open>2 ^ 64\<close>;
  converting back keeps the low 32 bits.
\<close>

type_synonym cint = "32 word"
type_synonym uint8 = "8 word"

definition to_size_t :: "cint \<Rightarrow> nat" where
  "to_size_t i = nat (sint i mod 2 ^ 64)"

definition to_int :: "nat \<Rightarrow> cint" where
  "to_int n = of_nat n"

subsection \<open>Types of window.h\<close>

text \<open>
  The header window.h is not part of the sources at hand. Its types are modelled from the
  way window.cpp uses them: \<^verbatim>\<open>RGBA\<close> has the four byte channels \<^verbatim>\<open>r, g, b, a\<close> (each is pushed
  into a \<^verbatim>\<open>std::vector<uint8_t>\<close>); a \<^verbatim>\<open>Grid\<close> is a vector of rows of \<^verbatim>\<open>int\<close> palette indices;
  a \<^verbatim>\<open>Constant\<close> is a pair of a name and a vector of floats; \<^verbatim>\<open>vec2\<close> has the members
  \<^verbatim>\<open>x\<close> and \<^verbatim>\<open>y\<close>.
\<close>

datatype RGBA = RGBA (rgba_r: uint8) (rgba_g: uint8) (rgba_b: uint8) (rgba_a: uint8)

type_synonym Grid = "cint list list"
type_synonym RGBAMap = "RGBA list list"
type_synonym HeatMap = "real list list"
type_synonym Constant = "string \<times> real list"

datatype vec2 = vec2 (vec2_x: real) (vec2_y: real)

text \<open>
  A \<^verbatim>\<open>Texture\<close> (texture.h) is represented by the arguments of its constructor
  \<^verbatim>\<open>Texture(int width, int height, int nrChannels, const uint8_t* data)\<close>.
\<close>

datatype Texture = Texture (tex_width: int) (tex_height: int) (tex_nrChannels: int)
  (tex_data: "uint8 list")

subsection \<open>Failures\<close>

datatype assertion =
    IndexInPalette      \<comment> \<open>\<^verbatim>\<open>assert(index >= 0 && index <m_palette.size())\<close>\<close>
  | MapWidthNonZero     \<comment> \<open>\<^verbatim>\<open>assert(mapWidth != 0)\<close>\<close>
  | MapHeightNonZero    \<comment> \<open>\<^verbatim>\<open>assert(mapHeight != 0)\<close>\<close>
  | InvalidValueLength  \<comment> \<open>\<^verbatim>\<open>assert(0); // Invalid value length. Must be between 1 to 4\<close>\<close>

datatype error =
    AssertionFailed assertion
  | RuntimeError string
  | DivisionByZero      \<comment> \<open>\<^verbatim>\<open>index % m_palette.size()\<close> with an empty palette\<close>

section \<open>Pixel grids\<close>

subsection \<open>The loop over a grid\<close>

text \<open>
  \<^verbatim>\<open>drawPixels\<close>, \<^verbatim>\<open>drawRGB\<close>, \<^verbatim>\<open>drawHeatMap\<close> and the grid overload of \<^verbatim>\<open>drawSprite\<close> all
  run the same two nested range-for loops:
  \<^verbatim>\<open>
    for(auto& row : pixels) {
        ++mapHeight;
        for(auto index : row) {
            <colour of index>
            mapData.push_back(color.r); mapData.push_back(color.g);
            mapData.push_back(color.b); mapData.push_back(color.a);
            ++mapWidth;
        }
    }
  \<close>
  They differ in how an element becomes a colour, the parameter \<open>colorOf\<close> below. The
  loop state is \<open>(mapData, mapWidth, mapHeight)\<close>. The two counters are C++ \<^verbatim>\<open>int\<close>s that
  only count upwards from 0; they are modelled as unbounded integers (a signed overflow
  would need more than \<open>2 ^ 31 - 1\<close> pixels in one grid).
\<close>

definition push_color :: "uint8 list \<Rightarrow> RGBA \<Rightarrow> uint8 list" where
  "push_color mapData color =
     mapData @ [rgba_r color, rgba_g color, rgba_b color, rgba_a color]"

fun rowLoop ::
  "('a \<Rightarrow> error + RGBA) \<Rightarrow> 'a list \<Rightarrow> uint8 list \<times> int \<Rightarrow> error + (uint8 list \<times> int)"
where
  "rowLoop colorOf [] (mapData, mapWidth) = Inr (mapData, mapWidth)"
| "rowLoop colorOf (index # row) (mapData, mapWidth) =
     (case colorOf index of
        Inl e \<Rightarrow> Inl e
      | Inr color \<Rightarrow> rowLoop colorOf row (push_color mapData color, mapWidth + 1))"

fun gridLoop ::
  "('a \<Rightarrow> error + RGBA) \<Rightarrow> 'a list list \<Rightarrow> uint8 list \<times> int \<times> int
     \<Rightarrow> error + (uint8 list \<times> int \<times> int)"
where
  "gridLoop colorOf [] (mapData, mapWidth, mapHeight) = Inr (mapData, mapWidth, mapHeight)"
| "gridLoop colorOf (row # pixels) (mapData, mapWidth, mapHeight) =
     (case rowLoop colorOf row (mapData, mapWidth) of
        Inl e \<Rightarrow> Inl e
      | Inr (mapData', mapWidth') \<Rightarrow>
          gridLoop colorOf pixels (mapData', mapWidth', mapHeight + 1))"

text \<open>
  After the loops every drawing function checks the counters, divides and builds the
  texture:
  \<^verbatim>\<open>
    assert(mapWidth != 0);
    assert(mapHeight != 0);
    mapWidth /= mapHeight;
    Texture texture(mapWidth,mapHeight,4,&mapData[0]);
  \<close>
  Both counters are non-negative, so the truncating division of C++ is \<open>div\<close>.
\<close>

definition makeTexture :: "uint8 list \<times> int \<times> int \<Rightarrow> error + Texture" where
  "makeTexture s =
     (case s of (mapData, mapWidth, mapHeight) \<Rightarrow>
        if mapWidth = 0 then Inl (AssertionFailed MapWidthNonZero)
        else if mapHeight = 0 then Inl (AssertionFailed MapHeightNonZero)
        else Inr (Texture (mapWidth div mapHeight) mapHeight 4 mapData))"

subsection \<open>drawPixels\<close>

text \<open>
  First revision: the index is asserted to lie in the palette and then looked up.
  \<^verbatim>\<open>
    assert(index >= 0 && index <m_palette.size());
    auto& color = m_palette[index];
  \<close>
  In \<^verbatim>\<open>index < m_palette.size()\<close> the \<^verbatim>\<open>int\<close> is converted to \<^verbatim>\<open>size_t\<close>.
\<close>

definition paletteColor_old :: "RGBA list \<Rightarrow> cint \<Rightarrow> error + RGBA" where
  "paletteColor_old m_palette index =
     (if 0 \<le> sint index \<and> to_size_t index < length m_palette
      then Inr (m_palette ! to_size_t index)
      else Inl (AssertionFailed IndexInPalette))"

text \<open>
  Second revision: the index is first reduced modulo the palette size.
  \<^verbatim>\<open>
    index = index % m_palette.size();
    assert(index >= 0 && index <m_palette.size());
    auto& color = m_palette[index];
  \<close>
  The remainder is taken in \<^verbatim>\<open>size_t\<close> (the \<^verbatim>\<open>int\<close> operand is converted) and the result is
  converted back to \<^verbatim>\<open>int\<close>. A remainder by zero does not return.
\<close>

definition paletteColor_new :: "RGBA list \<Rightarrow> cint \<Rightarrow> error + RGBA" where
  "paletteColor_new m_palette index0 =
     (if length m_palette = 0 then Inl DivisionByZero
      else
        let index = to_int (to_size_t index0 mod length m_palette)
        in if 0 \<le> sint index \<and> to_size_t index < length m_palette
           then Inr (m_palette ! to_size_t index)
           else Inl (AssertionFailed IndexInPalette))"

text \<open>
  \<^verbatim>\<open>void Window::drawPixels(const Grid& pixels)\<close>: the result is the texture handed to
  \<^verbatim>\<open>drawScreenSizeQuad\<close>.
\<close>

definition drawPixels_old :: "RGBA list \<Rightarrow> Grid \<Rightarrow> error + Texture" where
  "drawPixels_old m_palette pixels =
     (case gridLoop (paletteColor_old m_palette) pixels ([], 0, 0) of
        Inl e \<Rightarrow> Inl e
      | Inr s \<Rightarrow> makeTexture s)"

definition drawPixels_new :: "RGBA list \<Rightarrow> Grid \<Rightarrow> error + Texture" where
  "drawPixels_new m_palette pixels =
     (case gridLoop (paletteColor_new m_palette) pixels ([], 0, 0) of
        Inl e \<Rightarrow> Inl e
      | Inr s \<Rightarrow> makeTexture s)"

text \<open>
  \<^verbatim>\<open>void Window::drawRGB(const RGBAMap& map)\<close> (second revision) takes the colours as they
  are; \<^verbatim>\<open>void Window::drawHeatMap(const HeatMap& pixels, float valueMin, float valueMax)\<close>
  maps each value through \<^verbatim>\<open>heatToRGB\<close>, a function declared outside the sources at hand and
  therefore a parameter here.
\<close>

definition drawRGB :: "RGBAMap \<Rightarrow> error + Texture" where
  "drawRGB rgbaMap =
     (case gridLoop Inr rgbaMap ([], 0, 0) of
        Inl e \<Rightarrow> Inl e
      | Inr s \<Rightarrow> makeTexture s)"

definition drawHeatMap ::
  "(real \<Rightarrow> real \<Rightarrow> real \<Rightarrow> RGBA) \<Rightarrow> HeatMap \<Rightarrow> real \<Rightarrow> real \<Rightarrow> error + Texture" where
  "drawHeatMap heatToRGB pixels valueMin valueMax =
     (case gridLoop (\<lambda>heat. Inr (heatToRGB heat valueMin valueMax)) pixels ([], 0, 0) of
        Inl e \<Rightarrow> Inl e
      | Inr s \<Rightarrow> makeTexture s)"


section \<open>Shader input constants\<close>

text \<open>
  First revision, in \<^verbatim>\<open>Window::shade\<close> and again in the texture overload of
  \<^verbatim>\<open>Window::drawSprite\<close>:
  \<^verbatim>\<open>
    std::string inputUniforms;
    for(auto& c : inputConstants){
        auto& name = c.first;
        auto& val = c.second;
        if(val.size() == 1){
            inputUniforms += "uniform float "+name+";\n";
        } else if(val.size() == 2){
            inputUniforms += "uniform vec2 "+name+";\n";
        } else if(val.size() == 3){
            inputUniforms += "uniform vec3 "+name+";\n";
        } else if(val.size() == 4){
            inputUniforms += "uniform vec4 "+name+";\n";
        } else {
            assert(0); // Invalid value length. Must be between 1 to 4
        }
    }
  \<close>
\<close>

fun inputUniformsLoop :: "Constant list \<Rightarrow> string \<Rightarrow> error + string" where
  "inputUniformsLoop [] inputUniforms = Inr inputUniforms"
| "inputUniformsLoop ((name, val) # inputConstants) inputUniforms =
     (if length val = 1 then
        inputUniformsLoop inputConstants
          (inputUniforms @ ''uniform float '' @ name @ '';\<newline>'')
      else if length val = 2 then
        inputUniformsLoop inputConstants
          (inputUniforms @ ''uniform vec2 '' @ name @ '';\<newline>'')
      else if length val = 3 then
        inputUniformsLoop inputConstants
          (inputUniforms @ ''uniform vec3 '' @ name @ '';\<newline>'')
      else if length val = 4 then
        inputUniformsLoop inputConstants
          (inputUniforms @ ''uniform vec4 '' @ name @ '';\<newline>'')
      else Inl (AssertionFailed InvalidValueLength))"

text \<open>
  The second revision calls helpers of the namespace \<^verbatim>\<open>shaders\<close> (graphics.h), which are
  not part of the sources at hand. They are parameters of the model: \<open>constants\<close> may
  fail, the others return shader source text.
\<close>

record shaders =
  constants :: "Constant list \<Rightarrow> error + string"
  textureFSSource :: "string \<Rightarrow> string \<Rightarrow> string \<Rightarrow> string"
  modelProjectionVSSource :: string

section \<open>Sprites\<close>

text \<open>The shader sources of the first revision.\<close>

definition SPRITE_VERT :: string where
  "SPRITE_VERT =
     ''#version 330 core\<newline>'' @
     ''layout (location = 0) in vec2 inPosition;\<newline>'' @
     ''layout (location = 1) in vec2 inTexCoord;\<newline>'' @
     ''uniform mat4 P;'' @
     ''uniform mat4 M;'' @
     ''out vec2 texCoord;'' @
     ''void main()\<newline>'' @
     ''{\<newline>'' @
     ''   texCoord = inTexCoord;\<newline>'' @
     ''   gl_Position = P*M*vec4(vec3(inPosition,0.0),1.0);\<newline>'' @
     ''}''"

definition SPRITE_FRAG :: "string \<Rightarrow> string \<Rightarrow> string \<Rightarrow> string" where
  "SPRITE_FRAG shader inputUniforms globals =
     ''#version 330 core\<newline>'' @
     ''in vec2 texCoord;\<newline>'' @
     ''out vec4 FragColor;\<newline>'' @ inputUniforms @
     ''\<newline>uniform sampler2D texture0;\<newline>'' @ globals @
     ''\<newline>void main(){\<newline>'' @
     ''vec4 color = texture2D(texture0, texCoord);\<newline>'' @
     shader @
     ''gl_FragData[0] = color;\<newline>}\<newline>''"

text \<open>
  What one sprite draw hands to the graphics library: the two shader sources, the
  uniforms in the order they are set, and the bound texture.
\<close>

datatype SpriteDraw = SpriteDraw
  (sprite_vertexSource: string)
  (sprite_fragmentSource: string)
  (sprite_uniforms: "(string \<times> real list) list")
  (sprite_texture: Texture)

text \<open>
  \<^verbatim>\<open>void Window::drawSprite(const std::vector<float>& M, Texture* texture,
  const std::vector<Constant>& inputConstants, const std::string& surfaceShader,
  const std::string& globals)\<close>
\<close>

definition drawSprite_old ::
  "real list \<Rightarrow> real list \<Rightarrow> Texture \<Rightarrow> Constant list \<Rightarrow> string \<Rightarrow> string
     \<Rightarrow> error + SpriteDraw" where
  "drawSprite_old m_projection M texture inputConstants surfaceShader globals =
     (case inputUniformsLoop inputConstants [] of
        Inl e \<Rightarrow> Inl e
      | Inr inputUniforms \<Rightarrow>
          Inr (SpriteDraw SPRITE_VERT (SPRITE_FRAG surfaceShader inputUniforms globals)
                ([(''P'', m_projection), (''M'', M), (''texture0'', [0])] @ inputConstants)
                texture))"

definition drawSprite_new ::
  "shaders \<Rightarrow> real list \<Rightarrow> real list \<Rightarrow> Texture \<Rightarrow> Constant list \<Rightarrow> string \<Rightarrow> string
     \<Rightarrow> error + SpriteDraw" where
  "drawSprite_new sh m_projection M texture inputConstants surfaceShader globals =
     (case constants sh inputConstants of
        Inl e \<Rightarrow> Inl e
      | Inr inputUniforms \<Rightarrow>
          Inr (SpriteDraw (modelProjectionVSSource sh)
                (textureFSSource sh inputUniforms globals surfaceShader)
                ([(''P'', m_projection), (''M'', M), (''texture0'', [0])] @ inputConstants)
                texture))"

text \<open>
  The grid overload (the same text in both revisions, up to the name of the local
  \<^verbatim>\<open>model\<close> / \<^verbatim>\<open>matModel\<close>):
  \<^verbatim>\<open>
    <loop over pixels, as in the first revision of drawPixels>
    if(pixels.size()==0){
        mapWidth = ++mapHeight = 1;
        mapData.push_back(0xff); mapData.push_back(0xff);
        mapData.push_back(0xff); mapData.push_back(0xff);
    }
    assert(mapWidth != 0);
    assert(mapHeight != 0);
    mapWidth /= mapHeight;
    Texture texture(mapWidth,mapHeight,4,&mapData[0]);
    <matModel = the rows of transform, one after the other>
    drawSprite(matModel, &texture, inputConstants, surfaceShader, globals);
  \<close>
\<close>

definition emptyGridTexture ::
  "Grid \<Rightarrow> uint8 list \<times> int \<times> int \<Rightarrow> uint8 list \<times> int \<times> int" where
  "emptyGridTexture pixels s =
     (case s of (mapData, mapWidth, mapHeight) \<Rightarrow>
        if length pixels = 0 then (mapData @ [0xff, 0xff, 0xff, 0xff], 1, 1)
        else (mapData, mapWidth, mapHeight))"

definition spriteTexture :: "RGBA list \<Rightarrow> Grid \<Rightarrow> error + Texture" where
  "spriteTexture m_palette pixels =
     (case gridLoop (paletteColor_old m_palette) pixels ([], 0, 0) of
        Inl e \<Rightarrow> Inl e
      | Inr s \<Rightarrow> makeTexture (emptyGridTexture pixels s))"

definition drawSprite_grid_old ::
  "RGBA list \<Rightarrow> real list \<Rightarrow> real list list \<Rightarrow> Grid \<Rightarrow> Constant list \<Rightarrow> string \<Rightarrow> string
     \<Rightarrow> error + SpriteDraw" where
  "drawSprite_grid_old m_palette m_projection transform pixels inputConstants
       surfaceShader globals =
     (case spriteTexture m_palette pixels of
        Inl e \<Rightarrow> Inl e
      | Inr texture \<Rightarrow>
          drawSprite_old m_projection (concat transform) texture inputConstants
            surfaceShader globals)"

definition drawSprite_grid_new ::
  "shaders \<Rightarrow> RGBA list \<Rightarrow> real list \<Rightarrow> real list list \<Rightarrow> Grid \<Rightarrow> Constant list
     \<Rightarrow> string \<Rightarrow> string \<Rightarrow> error + SpriteDraw" where
  "drawSprite_grid_new sh m_palette m_projection transform pixels inputConstants
       surfaceShader globals =
     (case spriteTexture m_palette pixels of
        Inl e \<Rightarrow> Inl e
      | Inr texture \<Rightarrow>
          drawSprite_new sh m_projection (concat transform) texture inputConstants
            surfaceShader globals)"

section \<open>shade (first revision)\<close>

definition shade_vertexShaderSource :: string where
  "shade_vertexShaderSource =
     ''#version 330 core\<newline>'' @
     ''layout (location = 0) in vec2 inPosition;\<newline>'' @
     ''layout (location = 1) in vec2 inTexCoord;\<newline>'' @
     ''out float x;\<newline>'' @
     ''out float y;\<newline>'' @
     ''out float z;\<newline>'' @
     ''out float w;\<newline>'' @
     ''uniform mat4 M;\<newline>'' @
     ''uniform vec2 leftBottom;\<newline>'' @
     ''uniform vec2 rightTop;\<newline>'' @
     ''void main()\<newline>'' @
     ''{\<newline>'' @
     ''   vec4 p = M*vec4(vec3(inPosition,0.0),1.0);\<newline>'' @
     ''   x = mix(leftBottom.x, rightTop.x, inTexCoord.x);\<newline>'' @
     ''   y = mix(leftBottom.y, rightTop.y, inTexCoord.y);\<newline>'' @
     ''   z = p.z;\<newline>'' @
     ''   w = p.w;\<newline>'' @
     ''   gl_Position = p;\<newline>'' @
     ''}''"

definition shade_fragmentShaderSource :: "string \<Rightarrow> string \<Rightarrow> string \<Rightarrow> string" where
  "shade_fragmentShaderSource inputUniforms globals fragmentShaderMain =
     ''#version 330 core\<newline>'' @
     ''out vec4 FragColor;\<newline>'' @
     ''in float x;\<newline>'' @
     ''in float y;\<newline>'' @
     ''in float z;\<newline>'' @
     ''in float w;\<newline>'' @
     ''uniform vec2 max;\<newline>'' @
     ''uniform vec2 min;\<newline>'' @
     ''uniform vec2 size;\<newline>'' @
     inputUniforms @
     (''\<newline>'' @ globals @ ''\<newline>'') @
     ''\<newline>void main(){\<newline>'' @
     ''vec4 color;\<newline>'' @
     fragmentShaderMain @
     ''gl_FragData[0] = color;\<newline>'' @
     ''\<newline>}\<newline>''"

datatype ShadePass = ShadePass
  (shade_vertexSource: string)
  (shade_fragmentSource: string)
  (shade_uniforms: "(string \<times> real list) list")


section \<open>The window\<close>

subsection \<open>State\<close>

text \<open>
  The members of \<^verbatim>\<open>Window\<close> that the modelled functions read or write. \<open>m_window\<close> is the
  \<^verbatim>\<open>GLFWwindow*\<close>, with 0 for the null pointer; \<open>m_ssq\<close> holds the vertex positions of the
  screen size quad; the key maps are the \<^verbatim>\<open>std::map<int, bool>\<close> members of the second
  revision. Two further fields stand for state kept outside the object:
  \<open>windowShouldClose\<close> is the close flag GLFW keeps for the window, and \<open>pngFiles\<close> lists
  the file names passed to \<^verbatim>\<open>stbi_write_png\<close> so far, oldest first.
\<close>

record Window =
  m_clearColor :: int
  m_width :: int
  m_height :: int
  m_palette :: "RGBA list"
  m_window :: nat
  m_left :: real
  m_right :: real
  m_bottom :: real
  m_top :: real
  m_projection :: "real list"
  m_ssq :: "vec2 list"
  m_screenshotFileName :: string
  m_curKeys :: "int \<rightharpoonup> bool"
  m_prevKeys :: "int \<rightharpoonup> bool"
  windowShouldClose :: bool
  pngFiles :: "string list"

subsection \<open>setScreen\<close>

text \<open>
  Both revisions compute the screen size quad and the projection in the same way:
  \<^verbatim>\<open>
    float sx = right-left;
    float sy = top-bottom;
    const vec2 ssqTopLeft        = vec2(-sx*0.5f, -sy*0.5f);
    const vec2 ssqTopRight       = vec2(-sx*0.5f,  sy*0.5f);
    const vec2 ssqBottomLeft     = vec2( sx*0.5f, -sy*0.5f);
    const vec2 ssqBottomRight    = vec2( sx*0.5f,  sy*0.5f);
    screenSizeQuad = { ssqBottomLeft, ssqBottomRight, ssqTopRight,
                       ssqBottomLeft, ssqTopRight, ssqTopLeft };
    m_projection = {
        2.0f/(m_right-m_left), 0.0f,                  0.0f,                 0.0f,
        0.0f,                  2.0f/(m_top-m_bottom), 0.0f,                 0.0f,
        0.0f,                  0.0f,                  -2.0f/(m_far-m_near), 0.0f,
        0.0f,                  0.0f,                  0.0f,                 1.0f };
  \<close>
  with \<^verbatim>\<open>m_near = -1.0f\<close> and \<^verbatim>\<open>m_far = 1.0f\<close>. (The arguments \<^verbatim>\<open>top\<close> and \<^verbatim>\<open>size\<close> are
  written \<open>top'\<close> and \<open>size'\<close>, since the plain names are constants of HOL.)
\<close>

definition screenSizeQuad :: "real \<Rightarrow> real \<Rightarrow> real \<Rightarrow> real \<Rightarrow> vec2 list" where
  "screenSizeQuad left right bottom top' =
     (let sx = right - left;
          sy = top' - bottom;
          ssqTopLeft = vec2 (- sx * 0.5) (- sy * 0.5);
          ssqTopRight = vec2 (- sx * 0.5) (sy * 0.5);
          ssqBottomLeft = vec2 (sx * 0.5) (- sy * 0.5);
          ssqBottomRight = vec2 (sx * 0.5) (sy * 0.5)
      in [ssqBottomLeft, ssqBottomRight, ssqTopRight, ssqBottomLeft, ssqTopRight, ssqTopLeft])"

definition setScreen_body :: "Window \<Rightarrow> real \<Rightarrow> real \<Rightarrow> real \<Rightarrow> real \<Rightarrow> Window" where
  "setScreen_body w left right bottom top' =
     (let m_near = - 1;
          m_far = 1;
          w1 = w\<lparr>m_left := left, m_right := right, m_bottom := bottom, m_top := top'\<rparr>;
          w2 = w1\<lparr>m_ssq := screenSizeQuad left right bottom top'\<rparr>
      in w2\<lparr>m_projection :=
            [2 / (m_right w2 - m_left w2), 0, 0, 0,
             0, 2 / (m_top w2 - m_bottom w2), 0, 0,
             0, 0, - 2 / (m_far - m_near), 0,
             0, 0, 0, 1]\<rparr>)"

text \<open>\<^verbatim>\<open>void Window::setScreen(float left, float right, float bottom, float top)\<close>, first revision.\<close>

definition setScreen_old :: "Window \<Rightarrow> real \<Rightarrow> real \<Rightarrow> real \<Rightarrow> real \<Rightarrow> Window" where
  "setScreen_old w left right bottom top' = setScreen_body w left right bottom top'"

text \<open>
  \<^verbatim>\<open>std::vector<float> Window::setScreen(float left, float right, float bottom, float top)\<close>,
  second revision: it returns the projection, and returns early when the range is the
  stored one.
  \<^verbatim>\<open>
    if(m_left==left && m_right==right && m_bottom==bottom && m_top==top){
        return m_projection;
    }
  \<close>
\<close>

definition setScreen_new ::
  "Window \<Rightarrow> real \<Rightarrow> real \<Rightarrow> real \<Rightarrow> real \<Rightarrow> real list \<times> Window" where
  "setScreen_new w left right bottom top' =
     (if m_left w = left \<and> m_right w = right \<and> m_bottom w = bottom \<and> m_top w = top'
      then (m_projection w, w)
      else
        let w' = setScreen_body w left right bottom top'
        in (m_projection w', w'))"

text \<open>
  \<^verbatim>\<open>std::vector<float> Window::setScreen(vec2 pos, vec2 size)\<close> (second revision):
  \<^verbatim>\<open>
    float left   = pos.x-(0.5f*size.x);
    float right  = pos.x+(0.5f*size.x);
    float top    = pos.y-(0.5f*size.y);
    float bottom = pos.y+(0.5f*size.y);
    return setScreen(left, right, top, bottom);
  \<close>
\<close>

definition setScreen_vec2 :: "Window \<Rightarrow> vec2 \<Rightarrow> vec2 \<Rightarrow> real list \<times> Window" where
  "setScreen_vec2 w pos size' =
     (let left = vec2_x pos - (0.5 * vec2_x size');
          right = vec2_x pos + (0.5 * vec2_x size');
          top' = vec2_y pos - (0.5 * vec2_y size');
          bottom = vec2_y pos + (0.5 * vec2_y size')
      in setScreen_new w left right top' bottom)"

text \<open>
  How a vertex reaches the screen. The vertex shader of the screen size quad
  (\<^verbatim>\<open>SSQ_VERT\<close>, with the uniform \<^verbatim>\<open>M\<close> set to \<open>m_projection\<close>) computes
  \<^verbatim>\<open>gl_Position = M*vec4(vec3(inPosition,0.0),1.0);\<close>
  A \<^verbatim>\<open>mat4\<close> given as 16 floats is stored column by column; normalized device coordinates
  are \<^verbatim>\<open>gl_Position.xy / gl_Position.w\<close>.
\<close>

definition mat4_mul_vec4 ::
  "real list \<Rightarrow> real \<times> real \<times> real \<times> real \<Rightarrow> real \<times> real \<times> real \<times> real" where
  "mat4_mul_vec4 M v =
     (case v of (x, y, z, w) \<Rightarrow>
        (M ! 0 * x + M ! 4 * y + M ! 8 * z + M ! 12 * w,
         M ! 1 * x + M ! 5 * y + M ! 9 * z + M ! 13 * w,
         M ! 2 * x + M ! 6 * y + M ! 10 * z + M ! 14 * w,
         M ! 3 * x + M ! 7 * y + M ! 11 * z + M ! 15 * w))"

definition gl_Position :: "real list \<Rightarrow> vec2 \<Rightarrow> real \<times> real \<times> real \<times> real" where
  "gl_Position M inPosition = mat4_mul_vec4 M (vec2_x inPosition, vec2_y inPosition, 0, 1)"

definition normalized :: "real list \<Rightarrow> vec2 \<Rightarrow> vec2" where
  "normalized M inPosition =
     (case gl_Position M inPosition of (x, y, z, w) \<Rightarrow> vec2 (x / w) (y / w))"

subsection \<open>Construction\<close>

text \<open>
  What the libraries answer while a window is constructed: whether the global \<^verbatim>\<open>init\<close>
  object exists already (second revision), the results of \<^verbatim>\<open>glfwInit\<close> and
  \<^verbatim>\<open>ma_engine_init\<close>, the pointer returned by \<^verbatim>\<open>glfwCreateWindow\<close> (0 for null) and the size
  reported by \<^verbatim>\<open>glfwGetFramebufferSize\<close>.
\<close>

record Libraries =
  initExists :: bool
  glfwInitSucceeds :: bool
  maEngineInitSucceeds :: bool
  glfwCreateWindowResult :: nat
  framebufferSize :: "int \<times> int"

text \<open>
  \<^verbatim>\<open>StaticInit::StaticInit()\<close>:
  \<^verbatim>\<open>
    if (!glfwInit()) { throw std::runtime_error("Failed to initialize OpenGL!"); ... }
    auto result = ma_engine_init(NULL, &audioEngine);
    if (result != MA_SUCCESS) { throw std::runtime_error("Failed to initialize audio engine!"); ... }
  \<close>
\<close>

definition StaticInit :: "Libraries \<Rightarrow> error + unit" where
  "StaticInit lib =
     (if \<not> glfwInitSucceeds lib then Inl (RuntimeError ''Failed to initialize OpenGL!'')
      else if \<not> maEngineInitSucceeds lib
      then Inl (RuntimeError ''Failed to initialize audio engine!'')
      else Inr ())"

text \<open>
  The member initialisers: the four named arguments, a null window, a zero range; the
  members without an initialiser are default constructed (empty).
\<close>

definition initialMembers :: "int \<Rightarrow> int \<Rightarrow> RGBA list \<Rightarrow> int \<Rightarrow> Window" where
  "initialMembers sizeX sizeY palette clearColor =
     \<lparr>m_clearColor = clearColor, m_width = sizeX, m_height = sizeY, m_palette = palette,
      m_window = 0, m_left = 0, m_right = 0, m_bottom = 0, m_top = 0,
      m_projection = [], m_ssq = [], m_screenshotFileName = [],
      m_curKeys = Map.empty, m_prevKeys = Map.empty,
      windowShouldClose = False, pngFiles = []\<rparr>"

text \<open>
  \<^verbatim>\<open>Window::Window(int sizeX, int sizeY, const std::string& title,
  const std::vector<RGBA>& palette, int clearColor)\<close>, first revision. The static
  initialisation object is a namespace-scope variable there, built before any window.
  \<^verbatim>\<open>
    m_window = glfwCreateWindow(m_width+2, m_height+2, title.c_str(), 0, 0);
    if (!m_window) { throw std::runtime_error("Failed to create window!"); ... }
    ...
    glfwGetFramebufferSize(m_window, &screenWidth, &screenHeight);
    glViewport(0, 0, screenWidth, screenHeight);
    setScreen(0,screenWidth,0,screenHeight);
  \<close>
\<close>

definition Window_old ::
  "Libraries \<Rightarrow> int \<Rightarrow> int \<Rightarrow> string \<Rightarrow> RGBA list \<Rightarrow> int \<Rightarrow> error + Window" where
  "Window_old lib sizeX sizeY title palette clearColor =
     (let w = (initialMembers sizeX sizeY palette clearColor)
                \<lparr>m_window := glfwCreateWindowResult lib\<rparr>
      in if m_window w = 0 then Inl (RuntimeError ''Failed to create window!'')
         else
           case framebufferSize lib of (screenWidth, screenHeight) \<Rightarrow>
             Inr (setScreen_old w 0 (real_of_int screenWidth) 0 (real_of_int screenHeight)))"

text \<open>
  Second revision: the constructor first runs
  \<^verbatim>\<open>if(!init) init = std::make_unique<StaticInit>();\<close>
  and then continues as before.
\<close>

definition Window_new ::
  "Libraries \<Rightarrow> int \<Rightarrow> int \<Rightarrow> string \<Rightarrow> RGBA list \<Rightarrow> int \<Rightarrow> error + Window" where
  "Window_new lib sizeX sizeY title palette clearColor =
     (case (if \<not> initExists lib then StaticInit lib else Inr ()) of
        Inl e \<Rightarrow> Inl e
      | Inr _ \<Rightarrow>
          let w = (initialMembers sizeX sizeY palette clearColor)
                    \<lparr>m_window := glfwCreateWindowResult lib\<rparr>
          in if m_window w = 0 then Inl (RuntimeError ''Failed to create window!'')
             else
               case framebufferSize lib of (screenWidth, screenHeight) \<Rightarrow>
                 Inr (snd (setScreen_new w 0 (real_of_int screenWidth)
                             0 (real_of_int screenHeight))))"


subsection \<open>Keys and events (second revision)\<close>

text \<open>The values of the GLFW macros used by the key callback (GLFW/glfw3.h).\<close>

definition GLFW_RELEASE :: int where "GLFW_RELEASE = 0"
definition GLFW_PRESS :: int where "GLFW_PRESS = 1"
definition GLFW_KEY_ESCAPE :: int where "GLFW_KEY_ESCAPE = 256"

text \<open>
  The key callback installed by the constructor:
  \<^verbatim>\<open>
    if (key == GLFW_KEY_ESCAPE && action == GLFW_PRESS) {
        glfwSetWindowShouldClose(window, GLFW_TRUE);
    }
    Window* pThis = (Window*)glfwGetWindowUserPointer(window);
    if(action == GLFW_PRESS){ pThis->m_curKeys[key] = true; }
    if(action == GLFW_RELEASE){ pThis->m_curKeys[key] = false; }
  \<close>
\<close>

definition keyCallback :: "Window \<Rightarrow> int \<Rightarrow> int \<Rightarrow> Window" where
  "keyCallback w key action =
     (let w1 = (if key = GLFW_KEY_ESCAPE \<and> action = GLFW_PRESS
                then w\<lparr>windowShouldClose := True\<rparr> else w);
          w2 = (if action = GLFW_PRESS
                then w1\<lparr>m_curKeys := (m_curKeys w1)(key \<mapsto> True)\<rparr> else w1)
      in if action = GLFW_RELEASE
         then w2\<lparr>m_curKeys := (m_curKeys w2)(key \<mapsto> False)\<rparr> else w2)"

text \<open>
  \<^verbatim>\<open>glfwPollEvents\<close> delivers the pending events in order: a key event runs the callback,
  a close request of the user sets the close flag.
\<close>

datatype Event = KeyEvent int int | CloseRequest

fun deliver :: "Window \<Rightarrow> Event \<Rightarrow> Window" where
  "deliver w (KeyEvent key action) = keyCallback w key action"
| "deliver w CloseRequest = w\<lparr>windowShouldClose := True\<rparr>"

definition glfwPollEvents :: "Window \<Rightarrow> Event list \<Rightarrow> Window" where
  "glfwPollEvents w events = foldl deliver w events"

text \<open>
  \<^verbatim>\<open>
    bool keyState(const std::map<int, bool>& keyMap, int keyCode) {
        auto it = keyMap.find(keyCode);
        if(it == keyMap.end()){ return false; }
        return it->second;
    }
  \<close>
\<close>

definition keyState :: "(int \<rightharpoonup> bool) \<Rightarrow> int \<Rightarrow> bool" where
  "keyState keyMap keyCode = (case keyMap keyCode of None \<Rightarrow> False | Some b \<Rightarrow> b)"

text \<open>The three queries return \<^verbatim>\<open>int\<close>: the \<^verbatim>\<open>bool\<close> result is converted to 0 or 1.\<close>

definition getKeyState :: "Window \<Rightarrow> int \<Rightarrow> int" where
  "getKeyState w keyCode = (if keyState (m_curKeys w) keyCode then 1 else 0)"

definition getKeyPressed :: "Window \<Rightarrow> int \<Rightarrow> int" where
  "getKeyPressed w keyCode =
     of_bool (keyState (m_curKeys w) keyCode \<and> \<not> keyState (m_prevKeys w) keyCode)"

definition getKeyReleased :: "Window \<Rightarrow> int \<Rightarrow> int" where
  "getKeyReleased w keyCode =
     of_bool (\<not> keyState (m_curKeys w) keyCode \<and> keyState (m_prevKeys w) keyCode)"

subsection \<open>Screenshots and update (second revision)\<close>

text \<open>\<^verbatim>\<open>void Window::screenshot(const std::string filename) { m_screenshotFileName = filename; }\<close>\<close>

definition screenshot :: "Window \<Rightarrow> string \<Rightarrow> Window" where
  "screenshot w filename = w\<lparr>m_screenshotFileName := filename\<rparr>"

text \<open>
  \<^verbatim>\<open>void Window::takeScreenshot(const std::string filename)\<close> reads the frame back and
  calls \<^verbatim>\<open>stbi_write_png(filename.c_str(), ...)\<close> once.
\<close>

definition takeScreenshot :: "Window \<Rightarrow> string \<Rightarrow> Window" where
  "takeScreenshot w filename = w\<lparr>pngFiles := pngFiles w @ [filename]\<rparr>"

text \<open>
  \<^verbatim>\<open>
    bool Window::shouldClose() {
        glfwMakeContextCurrent(m_window);
        glfwPollEvents();
        return m_window == 0 || glfwWindowShouldClose(m_window);
    }
  \<close>
  The events delivered by the poll are an argument.
\<close>

definition shouldClose :: "Window \<Rightarrow> Event list \<Rightarrow> bool \<times> Window" where
  "shouldClose w events =
     (let w' = glfwPollEvents w events
      in (m_window w' = 0 \<or> windowShouldClose w', w'))"

text \<open>
  \<^verbatim>\<open>
    int Window::update() {
        if (shouldClose()) { return -1; }
        ... draw the screen size quad, swap buffers ...
        if(m_screenshotFileName.length()>0){
            takeScreenshot(m_screenshotFileName);
            m_screenshotFileName = "";
        }
        ... clear the colour buffers ...
        m_prevKeys = m_curKeys;
        glfwPollEvents();
        if (glfwWindowShouldClose(m_window)) { return -1; }
        return 0;
    }
  \<close>
  The arguments \<open>events1\<close> and \<open>events2\<close> are the events delivered by the first poll (in
  \<^verbatim>\<open>shouldClose\<close>) and by the second. The clear colour is graphics state only.
\<close>

definition update :: "Window \<Rightarrow> Event list \<Rightarrow> Event list \<Rightarrow> int \<times> Window" where
  "update w events1 events2 =
     (case shouldClose w events1 of
        (True, w1) \<Rightarrow> (- 1, w1)
      | (False, w1) \<Rightarrow>
          let w2 = (if length (m_screenshotFileName w1) > 0
                    then (takeScreenshot w1 (m_screenshotFileName w1))
                           \<lparr>m_screenshotFileName := []\<rparr>
                    else w1);
              w3 = w2\<lparr>m_prevKeys := m_curKeys w2\<rparr>;
              w4 = glfwPollEvents w3 events2
          in if windowShouldClose w4 then (- 1, w4) else (0, w4))"

text \<open>\<^verbatim>\<open>void Window::setScreenSize(int width, int height)\<close>\<close>

definition setScreenSize :: "Window \<Rightarrow> int \<Rightarrow> int \<Rightarrow> Window" where
  "setScreenSize w width height = w\<lparr>m_width := width, m_height := height\<rparr>"

text \<open>
  The window states a program can reach in the second revision: a window is constructed
  and then used through the member functions that change the modelled state (the
  drawing functions leave it as it is).
\<close>

inductive reachable :: "Window \<Rightarrow> bool" where
  reachable_Window:
    "Window_new lib sizeX sizeY title palette clearColor = Inr w \<Longrightarrow> reachable w"
| reachable_setScreen:
    "reachable w \<Longrightarrow> reachable (snd (setScreen_new w left right bottom top'))"
| reachable_screenshot:
    "reachable w \<Longrightarrow> reachable (screenshot w filename)"
| reachable_shouldClose:
    "reachable w \<Longrightarrow> reachable (snd (shouldClose w events))"
| reachable_update:
    "reachable w \<Longrightarrow> reachable (snd (update w events1 events2))"
| reachable_setScreenSize:
    "reachable w \<Longrightarrow> reachable (setScreenSize w width height)"

subsection \<open>shade (first revision)\<close>

text \<open>
  \<^verbatim>\<open>void Window::shade(const std::vector<Constant>& inputConstants,
  const std::string& fragmentShaderMain, const std::string& globals)\<close>: the loop over
  the constants, then the shader is built and its uniforms are set.
  \<^verbatim>\<open>
    shader.setUniformm("M", m_projection);
    auto maxX = max(m_right,m_left);   auto minX = min(m_right,m_left);
    auto maxY = max(m_top,m_bottom);   auto minY = min(m_top,m_bottom);
    shader.setUniformv("leftBottom", {m_left, m_bottom});
    shader.setUniformv("rightTop", {m_right, m_top});
    shader.setUniform("min", minX, minY);
    shader.setUniform("max", maxX, maxY);
    shader.setUniform("size", maxX-minX, maxY-minY);
    for(auto& c : inputConstants){ shader.setUniformv(c.first,c.second); }
  \<close>
\<close>

definition shade_old :: "Window \<Rightarrow> Constant list \<Rightarrow> string \<Rightarrow> string \<Rightarrow> error + ShadePass" where
  "shade_old w inputConstants fragmentShaderMain globals =
     (case inputUniformsLoop inputConstants [] of
        Inl e \<Rightarrow> Inl e
      | Inr inputUniforms \<Rightarrow>
          let maxX = max (m_right w) (m_left w);
              minX = min (m_right w) (m_left w);
              maxY = max (m_top w) (m_bottom w);
              minY = min (m_top w) (m_bottom w)
          in Inr (ShadePass shade_vertexShaderSource
                    (shade_fragmentShaderSource inputUniforms globals fragmentShaderMain)
                    ([(''M'', m_projection w),
                      (''leftBottom'', [m_left w, m_bottom w]),
                      (''rightTop'', [m_right w, m_top w]),
                      (''min'', [minX, minY]),
                      (''max'', [maxX, maxY]),
                      (''size'', [maxX - minX, maxY - minY])] @ inputConstants)))"

section \<open>The properties, in the words of the specification\<close>

text \<open>A palette index lies in the range from 0 up to, and excluding, the palette size.\<close>

definition in_palette :: "RGBA list \<Rightarrow> cint \<Rightarrow> bool" where
  "in_palette palette index = (0 \<le> sint index \<and> sint index < int (length palette))"

text \<open>A grid is rectangular when all its rows have the same length.\<close>

definition rectangular :: "'a list list \<Rightarrow> bool" where
  "rectangular pixels = (\<forall>row \<in> set pixels. length row = length (hd pixels))"

text \<open>The four bytes of a colour, and the row-major byte sequence of a grid of colours.\<close>

definition color_bytes :: "RGBA \<Rightarrow> uint8 list" where
  "color_bytes color = [rgba_r color, rgba_g color, rgba_b color, rgba_a color]"

definition row_major_bytes :: "('a \<Rightarrow> RGBA) \<Rightarrow> 'a list list \<Rightarrow> uint8 list" where
  "row_major_bytes colour pixels = concat (map (\<lambda>index. color_bytes (colour index)) (concat pixels))"

text \<open>
  The texture of a rectangular grid whose indices are looked up in the palette: as wide
  as the common row length, as high as the number of rows, four channels.
\<close>

definition looked_up_texture :: "RGBA list \<Rightarrow> Grid \<Rightarrow> Texture" where
  "looked_up_texture palette pixels =
     Texture (int (length (hd pixels))) (int (length pixels)) 4
       (row_major_bytes (\<lambda>index. palette ! nat (sint index)) pixels)"

text \<open>
  The texture the second revision of \<^verbatim>\<open>drawPixels\<close> builds when indices may lie outside
  the palette: every index is replaced by its \<^verbatim>\<open>size_t\<close> value modulo the palette size.
\<close>

definition wrapped_index :: "RGBA list \<Rightarrow> cint \<Rightarrow> nat" where
  "wrapped_index palette index = to_size_t index mod length palette"

definition wrapped_texture :: "RGBA list \<Rightarrow> Grid \<Rightarrow> Texture" where
  "wrapped_texture palette pixels =
     Texture (int (length (concat pixels)) div int (length pixels)) (int (length pixels)) 4
       (row_major_bytes (\<lambda>index. palette ! wrapped_index palette index) pixels)"

text \<open>The 1x1 texture of one fully opaque white pixel.\<close>

definition white_texture :: Texture where
  "white_texture = Texture 1 1 4 [0xff, 0xff, 0xff, 0xff]"

text \<open>
  A shader constant is well formed when its value has between 1 and 4 components; it is
  declared as a uniform of the GLSL type with that many components.
\<close>

definition valid_constant :: "Constant \<Rightarrow> bool" where
  "valid_constant c = (1 \<le> length (snd c) \<and> length (snd c) \<le> 4)"

definition glsl_type :: "nat \<Rightarrow> string" where
  "glsl_type n = [''float'', ''vec2'', ''vec3'', ''vec4''] ! (n - 1)"

definition uniform_declaration :: "Constant \<Rightarrow> string" where
  "uniform_declaration c =
     ''uniform '' @ glsl_type (length (snd c)) @ '' '' @ fst c @ '';\<newline>''"

definition uniform_declarations :: "Constant list \<Rightarrow> string" where
  "uniform_declarations cs = concat (map uniform_declaration cs)"

text \<open>
  The projection the code stores: a pure scaling, without the translation of an
  orthographic projection.
\<close>

definition scaling :: "real \<Rightarrow> real \<Rightarrow> real \<Rightarrow> real \<Rightarrow> real list" where
  "scaling left right bottom top' =
     [2 / (right - left), 0, 0, 0,
      0, 2 / (top' - bottom), 0, 0,
      0, 0, - 1, 0,
      0, 0, 0, 1]"


text \<open>
  The stored range and the stored projection belong together: the projection and the
  screen size quad are the ones computed from the stored range, unless the range is
  still the all-zero range of a window whose range was never set.
\<close>

definition range_consistent :: "Window \<Rightarrow> bool" where
  "range_consistent w =
     ((m_projection w = scaling (m_left w) (m_right w) (m_bottom w) (m_top w) \<and>
       m_ssq w = screenSizeQuad (m_left w) (m_right w) (m_bottom w) (m_top w)) \<or>
      (m_left w = 0 \<and> m_right w = 0 \<and> m_bottom w = 0 \<and> m_top w = 0))"

text \<open>The four corners of the normalized square, in the order of the screen size quad.\<close>

definition unit_quad :: "vec2 list" where
  "unit_quad = [vec2 1 (- 1), vec2 1 1, vec2 (- 1) 1, vec2 1 (- 1), vec2 (- 1) 1, vec2 (- 1) (- 1)]"

section \<open>Example values\<close>

text \<open>
  Concrete inputs at which the theorems below are instantiated: a palette of two colours,
  libraries that all succeed, and the window constructed with them (a 640 by 480 frame
  buffer, window handle 1).
\<close>

definition example_palette :: "RGBA list" where
  "example_palette = [RGBA 0xff 0x00 0x00 0xff, RGBA 0x00 0xff 0x00 0xff]"

definition example_libraries :: Libraries where
  "example_libraries =
     \<lparr>initExists = False, glfwInitSucceeds = True, maEngineInitSucceeds = True,
      glfwCreateWindowResult = 1, framebufferSize = (640, 480)\<rparr>"

definition example_window :: Window where
  "example_window =
     \<lparr>m_clearColor = 0, m_width = 640, m_height = 480, m_palette = example_palette,
      m_window = 1, m_left = 0, m_right = 640, m_bottom = 0, m_top = 480,
      m_projection = [1 / 320, 0, 0, 0,  0, 1 / 240, 0, 0,  0, 0, - 1, 0,  0, 0, 0, 1],
      m_ssq = [vec2 320 (- 240), vec2 320 240, vec2 (- 320) 240,
               vec2 320 (- 240), vec2 (- 320) 240, vec2 (- 320) (- 240)],
      m_screenshotFileName = [],
      m_curKeys = Map.empty, m_prevKeys = Map.empty,
      windowShouldClose = False, pngFiles = []\<rparr>"

section \<open>Pixel grids: proofs\<close>

subsection \<open>Conversions\<close>

lemma sint_cint_less: "sint (i::cint) < 2147483648"
  using sint_lt [of i] by simp

lemma to_size_t_nonneg: "0 \<le> sint i \<Longrightarrow> to_size_t i = nat (sint i)"
  using sint_cint_less [of i] by (simp add: to_size_t_def)

lemma to_int_nat_sint: "0 \<le> sint i \<Longrightarrow> to_int (nat (sint i)) = i"
  by (simp add: to_int_def)

lemma sint_to_int: 
  assumes "n < 2147483648"
  shows "sint (to_int n) = int n"
proof -
  have "to_int n = (word_of_int (int n) :: cint)"
    by (simp add: to_int_def)
  then have "sint (to_int n) = (int n + 2 ^ 31) mod 2 ^ 32 - 2 ^ 31"
    by (simp only: int_word_sint) simp
  with assms show ?thesis by simp
qed

lemma to_size_t_to_int: "n < 2147483648 \<Longrightarrow> to_size_t (to_int n) = n"
  by (simp add: to_size_t_def sint_to_int)

subsection \<open>Colours of single indices\<close>

lemma paletteColor_old_in: 
  "in_palette pal i \<Longrightarrow> paletteColor_old pal i = Inr (pal ! nat (sint i))"
  by (auto simp add: paletteColor_old_def in_palette_def to_size_t_nonneg)

lemma paletteColor_old_out: 
  "\<not> in_palette pal i \<Longrightarrow> paletteColor_old pal i = Inl (AssertionFailed IndexInPalette)"
  by (auto simp add: paletteColor_old_def in_palette_def to_size_t_nonneg)

lemma paletteColor_old_error:
  "paletteColor_old pal i = Inl e \<Longrightarrow> e = AssertionFailed IndexInPalette"
  by (auto simp add: paletteColor_old_def split: if_splits)

lemma paletteColor_new_in: 
  "in_palette pal i \<Longrightarrow> paletteColor_new pal i = Inr (pal ! nat (sint i))"
  by (auto simp add: paletteColor_new_def in_palette_def to_size_t_nonneg to_int_nat_sint Let_def)

lemma paletteColor_new_wraps:
  assumes "pal \<noteq> []" "length pal \<le> 2147483648"
  shows "paletteColor_new pal i = Inr (pal ! wrapped_index pal i)"
proof -
  let ?r = "to_size_t i mod length pal"
  have r: "?r < length pal" using assms by simp
  then have r31: "?r < 2147483648" using assms by linarith
  show ?thesis using assms r
    by (simp add: paletteColor_new_def Let_def wrapped_index_def
        sint_to_int [OF r31] to_size_t_to_int [OF r31])
qed

subsection \<open>The loops\<close>

lemma rowLoop_ok:
  "\<forall>x\<in>set row. colorOf x = Inr (f x) \<Longrightarrow>
   rowLoop colorOf row (d, w) =
     Inr (d @ concat (map (\<lambda>x. color_bytes (f x)) row), w + int (length row))"
  by (induction row arbitrary: d w) (simp_all add: push_color_def color_bytes_def)

lemma gridLoop_ok:
  "\<forall>row\<in>set pixels. \<forall>x\<in>set row. colorOf x = Inr (f x) \<Longrightarrow>
   gridLoop colorOf pixels (d, w, h) =
     Inr (d @ row_major_bytes f pixels,
          w + int (length (concat pixels)), h + int (length pixels))"
proof (induction pixels arbitrary: d w h)
  case Nil
  then show ?case by (simp add: row_major_bytes_def)
next
  case (Cons row pixels)
  have row: "rowLoop colorOf row (d, w) =
      Inr (d @ concat (map (\<lambda>x. color_bytes (f x)) row), w + int (length row))"
    using Cons.prems by (intro rowLoop_ok) simp
  have rest: "\<forall>r\<in>set pixels. \<forall>x\<in>set r. colorOf x = Inr (f x)"
    using Cons.prems by simp
  show ?case
    by (simp add: row Cons.IH [OF rest] row_major_bytes_def)
qed

lemma rowLoop_fail:
  "\<exists>x\<in>set row. colorOf x = Inl e \<Longrightarrow> \<forall>x\<in>set row. \<forall>e'. colorOf x = Inl e' \<longrightarrow> e' = e \<Longrightarrow>
   rowLoop colorOf row (d, w) = Inl e"
  by (induction row arbitrary: d w) (auto split: sum.splits)

lemma rowLoop_cases:
  "\<forall>x\<in>set row. \<forall>e'. colorOf x = Inl e' \<longrightarrow> e' = e \<Longrightarrow>
   rowLoop colorOf row (d, w) = Inl e \<or> (\<exists>s. rowLoop colorOf row (d, w) = Inr s)"
  by (induction row arbitrary: d w) (auto split: sum.splits)

lemma gridLoop_fail:
  "\<exists>row\<in>set pixels. \<exists>x\<in>set row. colorOf x = Inl e \<Longrightarrow>
   \<forall>row\<in>set pixels. \<forall>x\<in>set row. \<forall>e'. colorOf x = Inl e' \<longrightarrow> e' = e \<Longrightarrow>
   gridLoop colorOf pixels (d, w, h) = Inl e"
proof (induction pixels arbitrary: d w h)
  case Nil
  then show ?case by simp
next
  case (Cons row pixels)
  show ?case
  proof (cases "\<exists>x\<in>set row. colorOf x = Inl e")
    case True
    then have "rowLoop colorOf row (d, w) = Inl e"
      using Cons.prems(2) by (intro rowLoop_fail) auto
    then show ?thesis by simp
  next
    case False
    then have ex: "\<exists>r\<in>set pixels. \<exists>x\<in>set r. colorOf x = Inl e"
      using Cons.prems(1) by auto
    have all: "\<forall>r\<in>set pixels. \<forall>x\<in>set r. \<forall>e'. colorOf x = Inl e' \<longrightarrow> e' = e"
      using Cons.prems(2) by auto
    have "rowLoop colorOf row (d, w) = Inl e \<or> (\<exists>s. rowLoop colorOf row (d, w) = Inr s)"
      using Cons.prems(2) by (intro rowLoop_cases) auto
    then show ?thesis
      using Cons.IH [OF ex all] by (auto split: sum.splits)
  qed
qed

lemma length_concat_rectangular:
  "\<forall>row\<in>set pixels. length row = n \<Longrightarrow> length (concat pixels) = length pixels * n"
  by (induction pixels) simp_all

subsection \<open>drawPixels\<close>

lemma drawPixels_old_in_palette:
  assumes "\<forall>row\<in>set pixels. \<forall>index\<in>set row. in_palette palette index"
  shows "drawPixels_old palette pixels =
     makeTexture (row_major_bytes (\<lambda>index. palette ! nat (sint index)) pixels,
       int (length (concat pixels)), int (length pixels))"
proof -
  have "\<forall>row\<in>set pixels. \<forall>x\<in>set row.
      paletteColor_old palette x = Inr (palette ! nat (sint x))"
    using assms by (simp add: paletteColor_old_in)
  from gridLoop_ok [OF this, of "[]" 0 0] show ?thesis
    by (simp add: drawPixels_old_def)
qed

lemma drawPixels_new_in_palette:
  assumes "\<forall>row\<in>set pixels. \<forall>index\<in>set row. in_palette palette index"
  shows "drawPixels_new palette pixels =
     makeTexture (row_major_bytes (\<lambda>index. palette ! nat (sint index)) pixels,
       int (length (concat pixels)), int (length pixels))"
proof -
  have "\<forall>row\<in>set pixels. \<forall>x\<in>set row.
      paletteColor_new palette x = Inr (palette ! nat (sint x))"
    using assms by (simp add: paletteColor_new_in)
  from gridLoop_ok [OF this, of "[]" 0 0] show ?thesis
    by (simp add: drawPixels_new_def)
qed

lemma drawPixels_new_wrapped:
  assumes "palette \<noteq> []" "length palette \<le> 2147483648"
  shows "drawPixels_new palette pixels =
     makeTexture (row_major_bytes (\<lambda>index. palette ! wrapped_index palette index) pixels,
       int (length (concat pixels)), int (length pixels))"
proof -
  have "\<forall>row\<in>set pixels. \<forall>x\<in>set row.
      paletteColor_new palette x = Inr (palette ! wrapped_index palette x)"
    using assms by (simp add: paletteColor_new_wraps)
  from gridLoop_ok [OF this, of "[]" 0 0] show ?thesis
    by (simp add: drawPixels_new_def)
qed

lemma drawPixels_old_out_of_palette:
  assumes "\<exists>row\<in>set pixels. \<exists>index\<in>set row. \<not> in_palette palette index"
  shows "drawPixels_old palette pixels = Inl (AssertionFailed IndexInPalette)"
proof -
  have ex: "\<exists>row\<in>set pixels. \<exists>x\<in>set row.
      paletteColor_old palette x = Inl (AssertionFailed IndexInPalette)"
    using assms paletteColor_old_out by blast
  have all: "\<forall>row\<in>set pixels. \<forall>x\<in>set row. \<forall>e'.
      paletteColor_old palette x = Inl e' \<longrightarrow> e' = AssertionFailed IndexInPalette"
    using paletteColor_old_error by blast
  from gridLoop_fail [OF ex all, of "[]" 0 0] show ?thesis
    by (simp add: drawPixels_old_def)
qed

text \<open>
  Claim C4. For every non-empty rectangular pixel grid in which every index lies in the
  palette, the two revisions of \<^verbatim>\<open>drawPixels\<close> have the same outcome. When the rows are
  not empty, that outcome is the texture whose width is the common row length, whose
  height is the number of rows and whose data is the row-major sequence of the RGBA bytes
  of the palette entries. (When the rows are empty, both revisions fail
  \<^verbatim>\<open>assert(mapWidth != 0)\<close>.)
\<close>

theorem drawPixels_old_new_same_texture:
  assumes "pixels \<noteq> []"
    and "rectangular pixels"
    and "\<forall>row\<in>set pixels. \<forall>index\<in>set row. in_palette palette index"
  shows "drawPixels_old palette pixels = drawPixels_new palette pixels \<and>
         drawPixels_new palette pixels =
           (if hd pixels = [] then Inl (AssertionFailed MapWidthNonZero)
            else Inr (looked_up_texture palette pixels))"
proof -
  let ?n = "length (hd pixels)"
  have len: "length (concat pixels) = length pixels * ?n"
    using assms(2) by (intro length_concat_rectangular) (simp add: rectangular_def)
  have h: "0 < length pixels" using assms(1) by simp
  have same: "drawPixels_old palette pixels = drawPixels_new palette pixels"
    by (simp add: drawPixels_old_in_palette [OF assms(3)] drawPixels_new_in_palette [OF assms(3)])
  have "drawPixels_new palette pixels =
      (if hd pixels = [] then Inl (AssertionFailed MapWidthNonZero)
       else Inr (looked_up_texture palette pixels))"
    using h by (simp add: drawPixels_new_in_palette [OF assms(3)] makeTexture_def len
        looked_up_texture_def)
  with same show ?thesis by simp
qed

theorem drawPixels_old_new_same_texture_witness:
  "drawPixels_old example_palette [[0, 1], [1, 1]] =
     Inr (Texture 2 2 4 [0xff, 0, 0, 0xff,  0, 0xff, 0, 0xff,  0, 0xff, 0, 0xff,  0, 0xff, 0, 0xff]) \<and>
   drawPixels_new example_palette [[0, 1], [1, 1]] =
     Inr (Texture 2 2 4 [0xff, 0, 0, 0xff,  0, 0xff, 0, 0xff,  0, 0xff, 0, 0xff,  0, 0xff, 0, 0xff])"
  using drawPixels_old_new_same_texture [of "[[0, 1], [1, 1]]" example_palette]
  by (simp add: rectangular_def in_palette_def example_palette_def looked_up_texture_def
      row_major_bytes_def color_bytes_def)

text \<open>
  Claim C1 says that \<^verbatim>\<open>drawPixels\<close>, called on a grid that holds an index outside the
  palette, aborts. The second revision does not: with a palette of two colours the index
  2 is drawn in the colour of entry 0.
\<close>

theorem drawPixels_new_wraps_counterexample:
  "\<not> in_palette example_palette 2 \<and>
   drawPixels_new example_palette [[2]] = Inr (Texture 1 1 4 [0xff, 0, 0, 0xff])"
  by (simp add: in_palette_def example_palette_def drawPixels_new_def paletteColor_new_def
      to_size_t_def to_int_def makeTexture_def push_color_def Let_def
      numeral_2_eq_2 [symmetric])

text \<open>
  Claim C1, amended. For every call of \<^verbatim>\<open>drawPixels\<close> on a grid that holds at least one
  index outside the palette: the first revision fails its assertion on the index; the
  second revision, given a non-empty palette of at most \<open>2 ^ 31\<close> entries, does not fail
  but replaces every index by its \<^verbatim>\<open>size_t\<close> value modulo the palette size and builds the
  texture from the palette entries at the replaced indices.
\<close>

theorem drawPixels_index_out_of_palette:
  assumes "\<exists>row\<in>set pixels. \<exists>index\<in>set row. \<not> in_palette palette index"
  shows "drawPixels_old palette pixels = Inl (AssertionFailed IndexInPalette) \<and>
         (palette \<noteq> [] \<and> length palette \<le> 2 ^ 31 \<longrightarrow>
            drawPixels_new palette pixels = Inr (wrapped_texture palette pixels))"
proof -
  from assms obtain row index where row: "row \<in> set pixels" "index \<in> set row"
    by blast
  then have "row \<noteq> []" by auto
  with row have pos: "0 < length pixels" "0 < length (concat pixels)"
    by auto
  have "drawPixels_new palette pixels = Inr (wrapped_texture palette pixels)"
    if "palette \<noteq> []" "length palette \<le> 2 ^ 31"
  proof -
    from that have "length palette \<le> 2147483648" by simp
    from drawPixels_new_wrapped [OF that(1) this, of pixels] pos show ?thesis
      by (simp add: makeTexture_def wrapped_texture_def)
  qed
  with drawPixels_old_out_of_palette [OF assms] show ?thesis by simp
qed

theorem drawPixels_index_out_of_palette_witness:
  "drawPixels_old example_palette [[0, 3]] = Inl (AssertionFailed IndexInPalette) \<and>
   drawPixels_new example_palette [[0, 3]] =
     Inr (Texture 2 1 4 [0xff, 0, 0, 0xff,  0, 0xff, 0, 0xff]) \<and>
   drawPixels_old example_palette [[- 1]] = Inl (AssertionFailed IndexInPalette) \<and>
   drawPixels_new example_palette [[- 1]] = Inr (Texture 1 1 4 [0, 0xff, 0, 0xff])"
  using drawPixels_index_out_of_palette [of "[[0, 3]]" example_palette]
    drawPixels_index_out_of_palette [of "[[- 1]]" example_palette]
  by (simp add: in_palette_def example_palette_def wrapped_texture_def wrapped_index_def
      row_major_bytes_def color_bytes_def to_size_t_def numeral_2_eq_2 [symmetric])

section \<open>Shader constants and sprites: proofs\<close>

lemma uniform_declaration_cases:
  "length val = 1 \<Longrightarrow> uniform_declaration (name, val) = ''uniform float '' @ name @ '';\<newline>''"
  "length val = 2 \<Longrightarrow> uniform_declaration (name, val) = ''uniform vec2 '' @ name @ '';\<newline>''"
  "length val = 3 \<Longrightarrow> uniform_declaration (name, val) = ''uniform vec3 '' @ name @ '';\<newline>''"
  "length val = 4 \<Longrightarrow> uniform_declaration (name, val) = ''uniform vec4 '' @ name @ '';\<newline>''"
  by (simp_all add: uniform_declaration_def glsl_type_def)

lemma valid_constant_cases:
  "valid_constant (name, val) \<longleftrightarrow>
     length val = 1 \<or> length val = 2 \<or> length val = 3 \<or> length val = 4"
  by (auto simp add: valid_constant_def)

lemma inputUniformsLoop_valid:
  "\<forall>c\<in>set cs. valid_constant c \<Longrightarrow>
   inputUniformsLoop cs acc = Inr (acc @ uniform_declarations cs)"
proof (induction cs arbitrary: acc)
  case Nil
  then show ?case by (simp add: uniform_declarations_def)
next
  case (Cons c cs)
  obtain name val where c: "c = (name, val)" by (cases c)
  from Cons.prems have rest: "\<forall>c\<in>set cs. valid_constant c" by simp
  from Cons.prems c
  have "length val = 1 \<or> length val = 2 \<or> length val = 3 \<or> length val = 4"
    by (simp add: valid_constant_cases)
  then show ?case
    by (elim disjE)
      (simp_all add: c Cons.IH [OF rest] uniform_declaration_cases uniform_declarations_def)
qed

lemma inputUniformsLoop_invalid:
  "\<exists>c\<in>set cs. \<not> valid_constant c \<Longrightarrow>
   inputUniformsLoop cs acc = Inl (AssertionFailed InvalidValueLength)"
proof (induction cs arbitrary: acc)
  case Nil
  then show ?case by simp
next
  case (Cons c cs)
  obtain name val where c: "c = (name, val)" by (cases c)
  show ?case
  proof (cases "valid_constant c")
    case True
    with Cons.prems have "\<exists>c\<in>set cs. \<not> valid_constant c" by simp
    from Cons.IH [OF this] show ?thesis
      by (simp add: c)
  next
    case False
    then show ?thesis
      by (simp add: c valid_constant_cases)
  qed
qed

lemma inputUniformsLoop_eq:
  "inputUniformsLoop cs [] =
     (if \<forall>c\<in>set cs. valid_constant c then Inr (uniform_declarations cs)
      else Inl (AssertionFailed InvalidValueLength))"
  using inputUniformsLoop_valid [of cs "[]"] inputUniformsLoop_invalid [of cs "[]"]
  by auto

lemma spriteTexture_empty: "spriteTexture palette [] = Inr white_texture"
  by (simp add: spriteTexture_def emptyGridTexture_def makeTexture_def white_texture_def)

text \<open>
  Claim C7. For every list of shader input constants passed to \<^verbatim>\<open>shade\<close> or to the
  texture overload of \<^verbatim>\<open>drawSprite\<close> (first revision): if some constant has a value whose
  length is outside 1..4, the call fails \<^verbatim>\<open>assert(0)\<close>; if every constant has a value of
  length 1..4, the call does not fail and the fragment shader declares each constant, in
  order, as a uniform of the GLSL type of that length (float, vec2, vec3, vec4). The
  text of the fragment shader is written out: the declarations stand between the fixed
  declarations and the globals.
\<close>

theorem shader_constants_checked:
  "shade_old w inputConstants fragmentShaderMain globals =
     (if \<forall>c\<in>set inputConstants. valid_constant c
      then Inr (ShadePass shade_vertexShaderSource
             (''#version 330 core\<newline>'' @
              ''out vec4 FragColor;\<newline>'' @
              ''in float x;\<newline>'' @
              ''in float y;\<newline>'' @
              ''in float z;\<newline>'' @
              ''in float w;\<newline>'' @
              ''uniform vec2 max;\<newline>'' @
              ''uniform vec2 min;\<newline>'' @
              ''uniform vec2 size;\<newline>'' @
              uniform_declarations inputConstants @
              ''\<newline>'' @ globals @ ''\<newline>'' @
              ''\<newline>void main(){\<newline>'' @
              ''vec4 color;\<newline>'' @
              fragmentShaderMain @
              ''gl_FragData[0] = color;\<newline>'' @
              ''\<newline>}\<newline>'')
             ([(''M'', m_projection w),
               (''leftBottom'', [m_left w, m_bottom w]),
               (''rightTop'', [m_right w, m_top w]),
               (''min'', [min (m_right w) (m_left w), min (m_top w) (m_bottom w)]),
               (''max'', [max (m_right w) (m_left w), max (m_top w) (m_bottom w)]),
               (''size'', [max (m_right w) (m_left w) - min (m_right w) (m_left w),
                           max (m_top w) (m_bottom w) - min (m_top w) (m_bottom w)])]
              @ inputConstants))
      else Inl (AssertionFailed InvalidValueLength)) \<and>
   drawSprite_old projection M texture inputConstants surfaceShader globals =
     (if \<forall>c\<in>set inputConstants. valid_constant c
      then Inr (SpriteDraw SPRITE_VERT
             (''#version 330 core\<newline>'' @
              ''in vec2 texCoord;\<newline>'' @
              ''out vec4 FragColor;\<newline>'' @
              uniform_declarations inputConstants @
              ''\<newline>uniform sampler2D texture0;\<newline>'' @ globals @
              ''\<newline>void main(){\<newline>'' @
              ''vec4 color = texture2D(texture0, texCoord);\<newline>'' @
              surfaceShader @
              ''gl_FragData[0] = color;\<newline>}\<newline>'')
             ([(''P'', projection), (''M'', M), (''texture0'', [0])] @ inputConstants)
             texture)
      else Inl (AssertionFailed InvalidValueLength))"
  by (simp add: shade_old_def drawSprite_old_def inputUniformsLoop_eq Let_def
      shade_fragmentShaderSource_def SPRITE_FRAG_def)

theorem shader_constants_checked_witness:
  "shade_old example_window [(''t'', [1]), (''c'', [1, 0, 0])] ''color = vec4(c, t);'' [] =
     Inr (ShadePass shade_vertexShaderSource
       (''#version 330 core\<newline>out vec4 FragColor;\<newline>in float x;\<newline>in float y;\<newline>'' @
        ''in float z;\<newline>in float w;\<newline>uniform vec2 max;\<newline>uniform vec2 min;\<newline>'' @
        ''uniform vec2 size;\<newline>'' @
        ''uniform float t;\<newline>uniform vec3 c;\<newline>'' @
        ''\<newline>\<newline>\<newline>void main(){\<newline>vec4 color;\<newline>'' @
        ''color = vec4(c, t);'' @ ''gl_FragData[0] = color;\<newline>\<newline>}\<newline>'')
       ([(''M'', m_projection example_window),
         (''leftBottom'', [0, 0]), (''rightTop'', [640, 480]),
         (''min'', [0, 0]), (''max'', [640, 480]), (''size'', [640, 480]),
         (''t'', [1]), (''c'', [1, 0, 0])])) \<and>
   drawSprite_old [] [] white_texture [(''k'', [2, 3]), (''q'', [1, 2, 3, 4])] ''color *= q;'' [] =
     Inr (SpriteDraw SPRITE_VERT
       (''#version 330 core\<newline>in vec2 texCoord;\<newline>out vec4 FragColor;\<newline>'' @
        ''uniform vec2 k;\<newline>uniform vec4 q;\<newline>'' @
        ''\<newline>uniform sampler2D texture0;\<newline>'' @
        ''\<newline>void main(){\<newline>vec4 color = texture2D(texture0, texCoord);\<newline>'' @
        ''color *= q;'' @ ''gl_FragData[0] = color;\<newline>}\<newline>'')
       [(''P'', []), (''M'', []), (''texture0'', [0]), (''k'', [2, 3]), (''q'', [1, 2, 3, 4])]
       white_texture) \<and>
   drawSprite_old [] [] white_texture [(''v'', [1, 2, 3, 4, 5])] [] [] =
     Inl (AssertionFailed InvalidValueLength) \<and>
   shade_old example_window [(''e'', [])] [] [] = Inl (AssertionFailed InvalidValueLength)"
  using shader_constants_checked [where w = example_window
      and inputConstants = "[(''t'', [1]), (''c'', [1, 0, 0])]"
      and fragmentShaderMain = "''color = vec4(c, t);''" and globals = "[]"]
    shader_constants_checked [where inputConstants = "[(''k'', [2, 3]), (''q'', [1, 2, 3, 4])]"
      and projection = "[]" and M = "[]" and texture = white_texture
      and surfaceShader = "''color *= q;''" and globals = "[]"]
    shader_constants_checked [where inputConstants = "[(''v'', [1, 2, 3, 4, 5])]"
      and projection = "[]" and M = "[]" and texture = white_texture
      and surfaceShader = "[]" and globals = "[]"]
    shader_constants_checked [where w = example_window and inputConstants = "[(''e'', [])]"
      and fragmentShaderMain = "[]" and globals = "[]"]
  by (simp add: valid_constant_def uniform_declarations_def uniform_declaration_def
      glsl_type_def example_window_def)

text \<open>
  Claim C3 says that every drawing operation that is given an empty pixel grid aborts.
  The grid overload of \<^verbatim>\<open>drawSprite\<close> does not: it draws the sprite with a white 1x1
  texture.
\<close>

theorem drawSprite_empty_grid_counterexample:
  "drawSprite_grid_old example_palette (m_projection example_window) [] [] [] [] [] =
     Inr (SpriteDraw SPRITE_VERT (SPRITE_FRAG [] [] [])
           [(''P'', m_projection example_window), (''M'', []), (''texture0'', [0])]
           (Texture 1 1 4 [0xff, 0xff, 0xff, 0xff]))"
  by (simp add: drawSprite_grid_old_def spriteTexture_empty white_texture_def
      drawSprite_old_def)

text \<open>
  Claim C3, amended. Every call of \<^verbatim>\<open>drawPixels\<close> (either revision), \<^verbatim>\<open>drawRGB\<close> or
  \<^verbatim>\<open>drawHeatMap\<close> with an empty grid (no rows) fails \<^verbatim>\<open>assert(mapWidth != 0)\<close>.
\<close>

theorem empty_grid_assertion:
  "drawPixels_old palette [] = Inl (AssertionFailed MapWidthNonZero) \<and>
   drawPixels_new palette [] = Inl (AssertionFailed MapWidthNonZero) \<and>
   drawRGB [] = Inl (AssertionFailed MapWidthNonZero) \<and>
   drawHeatMap heatToRGB [] valueMin valueMax = Inl (AssertionFailed MapWidthNonZero)"
  by (simp add: drawPixels_old_def drawPixels_new_def drawRGB_def drawHeatMap_def
      makeTexture_def)

theorem empty_grid_assertion_witness:
  "drawPixels_old example_palette [] = Inl (AssertionFailed MapWidthNonZero) \<and>
   drawPixels_new example_palette [] = Inl (AssertionFailed MapWidthNonZero) \<and>
   drawRGB [] = Inl (AssertionFailed MapWidthNonZero) \<and>
   drawHeatMap (\<lambda>heat lo hi. RGBA 0 0 0 0xff) [] 0 1 = Inl (AssertionFailed MapWidthNonZero)"
  using empty_grid_assertion [of example_palette "\<lambda>heat lo hi. RGBA 0 0 0 0xff" 0 1]
  by simp

text \<open>
  Claim C9 says that the grid overload of \<^verbatim>\<open>drawSprite\<close> never aborts on an empty grid.
  The texture overload it calls still checks the shader constants: with a constant whose
  value is empty the call fails \<^verbatim>\<open>assert(0)\<close>.
\<close>

theorem drawSprite_empty_grid_constants_counterexample:
  "drawSprite_grid_old example_palette (m_projection example_window) [] [] [(''c'', [])] [] [] =
     Inl (AssertionFailed InvalidValueLength)"
  by (simp add: drawSprite_grid_old_def spriteTexture_empty drawSprite_old_def)

text \<open>
  Claim C9, amended. For every call of the grid overload of \<^verbatim>\<open>drawSprite\<close> with an empty
  grid: the texture is the 1x1 texture of one opaque white pixel, and the call does not
  abort but draws the sprite with it, provided every shader constant has a value of
  length 1..4 (first revision) or \<^verbatim>\<open>shaders::constants\<close> returns (second revision).
\<close>

theorem drawSprite_empty_grid:
  "((\<forall>c\<in>set inputConstants. valid_constant c) \<longrightarrow>
     drawSprite_grid_old palette projection transform [] inputConstants surfaceShader globals =
       Inr (SpriteDraw SPRITE_VERT
             (SPRITE_FRAG surfaceShader (uniform_declarations inputConstants) globals)
             ([(''P'', projection), (''M'', concat transform), (''texture0'', [0])]
              @ inputConstants)
             white_texture)) \<and>
   (constants sh inputConstants = Inr inputUniforms \<longrightarrow>
     drawSprite_grid_new sh palette projection transform [] inputConstants surfaceShader globals =
       Inr (SpriteDraw (modelProjectionVSSource sh)
             (textureFSSource sh inputUniforms globals surfaceShader)
             ([(''P'', projection), (''M'', concat transform), (''texture0'', [0])]
              @ inputConstants)
             white_texture))"
  by (simp add: drawSprite_grid_old_def drawSprite_grid_new_def spriteTexture_empty
      drawSprite_old_def drawSprite_new_def inputUniformsLoop_eq)


theorem drawSprite_empty_grid_witness:
  "drawSprite_grid_old example_palette [] [[1, 0], [0, 1]] [] [(''k'', [2, 3])] ''color.r = k.x;'' [] =
     Inr (SpriteDraw SPRITE_VERT
           (SPRITE_FRAG ''color.r = k.x;'' ''uniform vec2 k;\<newline>'' [])
           [(''P'', []), (''M'', [1, 0, 0, 1]), (''texture0'', [0]), (''k'', [2, 3])]
           (Texture 1 1 4 [0xff, 0xff, 0xff, 0xff])) \<and>
   drawSprite_grid_new
       \<lparr>constants = (\<lambda>cs. Inr []), textureFSSource = (\<lambda>u g s. u @ g @ s),
        modelProjectionVSSource = []\<rparr>
       example_palette [] [[1, 0], [0, 1]] [] [] ''color.r = 1.0;'' [] =
     Inr (SpriteDraw [] ''color.r = 1.0;''
           [(''P'', []), (''M'', [1, 0, 0, 1]), (''texture0'', [0])]
           (Texture 1 1 4 [0xff, 0xff, 0xff, 0xff]))"
  using drawSprite_empty_grid [where inputConstants = "[(''k'', [2, 3])]"
      and palette = example_palette and projection = "[]" and transform = "[[1, 0], [0, 1]]"
      and surfaceShader = "''color.r = k.x;''" and globals = "[]"
      and sh = "\<lparr>constants = (\<lambda>cs. Inr []), textureFSSource = (\<lambda>u g s. u @ g @ s),
        modelProjectionVSSource = []\<rparr>"]
    drawSprite_empty_grid [where inputConstants = "[]"
      and palette = example_palette and projection = "[]" and transform = "[[1, 0], [0, 1]]"
      and surfaceShader = "''color.r = 1.0;''" and globals = "[]" and inputUniforms = "[]"
      and sh = "\<lparr>constants = (\<lambda>cs. Inr []), textureFSSource = (\<lambda>u g s. u @ g @ s),
        modelProjectionVSSource = []\<rparr>"]
  by (simp add: valid_constant_def uniform_declarations_def uniform_declaration_def
      glsl_type_def white_texture_def)

section \<open>The window: proofs\<close>

subsection \<open>setScreen\<close>

lemma setScreen_body_fields:
  "m_left (setScreen_body w l r b t) = l"
  "m_right (setScreen_body w l r b t) = r"
  "m_bottom (setScreen_body w l r b t) = b"
  "m_top (setScreen_body w l r b t) = t"
  "m_projection (setScreen_body w l r b t) = scaling l r b t"
  "m_ssq (setScreen_body w l r b t) = screenSizeQuad l r b t"
  "m_width (setScreen_body w l r b t) = m_width w"
  "m_height (setScreen_body w l r b t) = m_height w"
  "m_palette (setScreen_body w l r b t) = m_palette w"
  "m_clearColor (setScreen_body w l r b t) = m_clearColor w"
  "m_window (setScreen_body w l r b t) = m_window w"
  by (simp_all add: setScreen_body_def scaling_def Let_def)

lemma setScreen_body_consistent: "range_consistent (setScreen_body w l r b t)"
  by (simp add: range_consistent_def setScreen_body_fields)

lemma setScreen_new_consistent:
  "range_consistent w \<Longrightarrow> range_consistent (snd (setScreen_new w l r b t))"
  by (simp add: setScreen_new_def Let_def setScreen_body_consistent)

lemma setScreen_new_range:
  "m_left (snd (setScreen_new w l r b t)) = l"
  "m_right (snd (setScreen_new w l r b t)) = r"
  "m_bottom (snd (setScreen_new w l r b t)) = b"
  "m_top (snd (setScreen_new w l r b t)) = t"
  by (simp_all add: setScreen_new_def Let_def setScreen_body_fields)

lemma setScreen_new_returns_stored:
  "fst (setScreen_new w l r b t) = m_projection (snd (setScreen_new w l r b t))"
  by (simp add: setScreen_new_def Let_def)

lemma setScreen_new_other_fields:
  "m_width (snd (setScreen_new w l r b t)) = m_width w"
  "m_height (snd (setScreen_new w l r b t)) = m_height w"
  "m_palette (snd (setScreen_new w l r b t)) = m_palette w"
  "m_clearColor (snd (setScreen_new w l r b t)) = m_clearColor w"
  "m_window (snd (setScreen_new w l r b t)) = m_window w"
  by (simp_all add: setScreen_new_def Let_def setScreen_body_fields)

subsection \<open>Events\<close>

lemma deliver_fields:
  "m_left (deliver w e) = m_left w"
  "m_right (deliver w e) = m_right w"
  "m_bottom (deliver w e) = m_bottom w"
  "m_top (deliver w e) = m_top w"
  "m_projection (deliver w e) = m_projection w"
  "m_ssq (deliver w e) = m_ssq w"
  "m_screenshotFileName (deliver w e) = m_screenshotFileName w"
  "pngFiles (deliver w e) = pngFiles w"
  "m_window (deliver w e) = m_window w"
  "m_prevKeys (deliver w e) = m_prevKeys w"
  by (cases e; simp add: keyCallback_def Let_def)+

lemma glfwPollEvents_fields:
  "m_left (glfwPollEvents w events) = m_left w"
  "m_right (glfwPollEvents w events) = m_right w"
  "m_bottom (glfwPollEvents w events) = m_bottom w"
  "m_top (glfwPollEvents w events) = m_top w"
  "m_projection (glfwPollEvents w events) = m_projection w"
  "m_ssq (glfwPollEvents w events) = m_ssq w"
  "m_screenshotFileName (glfwPollEvents w events) = m_screenshotFileName w"
  "pngFiles (glfwPollEvents w events) = pngFiles w"
  "m_window (glfwPollEvents w events) = m_window w"
  "m_prevKeys (glfwPollEvents w events) = m_prevKeys w"
  unfolding glfwPollEvents_def
  by (induction events arbitrary: w; simp add: deliver_fields)+

lemma glfwPollEvents_consistent:
  "range_consistent (glfwPollEvents w events) = range_consistent w"
  by (simp add: range_consistent_def glfwPollEvents_fields)


subsection \<open>update and screenshot\<close>

lemma update_range_fields:
  "m_left (snd (update w events1 events2)) = m_left w"
  "m_right (snd (update w events1 events2)) = m_right w"
  "m_bottom (snd (update w events1 events2)) = m_bottom w"
  "m_top (snd (update w events1 events2)) = m_top w"
  "m_projection (snd (update w events1 events2)) = m_projection w"
  "m_ssq (snd (update w events1 events2)) = m_ssq w"
  by (simp_all add: update_def shouldClose_def Let_def takeScreenshot_def
      glfwPollEvents_fields split: bool.splits)

lemma update_early:
  assumes "fst (shouldClose w events1)"
  shows "fst (update w events1 events2) = - 1"
    and "pngFiles (snd (update w events1 events2)) = pngFiles w"
    and "m_screenshotFileName (snd (update w events1 events2)) = m_screenshotFileName w"
  using assms
  by (simp_all add: update_def shouldClose_def Let_def glfwPollEvents_fields)

lemma update_runs:
  assumes "\<not> fst (shouldClose w events1)"
  shows "pngFiles (snd (update w events1 events2)) =
           pngFiles w @ (if m_screenshotFileName w = [] then [] else [m_screenshotFileName w])"
    and "m_screenshotFileName (snd (update w events1 events2)) = []"
  using assms
  by (simp_all add: update_def shouldClose_def Let_def takeScreenshot_def
      glfwPollEvents_fields)

lemma update_nothing_pending:
  assumes "m_screenshotFileName w = []"
  shows "pngFiles (snd (update w events1 events2)) = pngFiles w"
proof (cases "fst (shouldClose w events1)")
  case True
  then show ?thesis by (rule update_early)
next
  case False
  then show ?thesis using assms by (simp add: update_runs)
qed

subsection \<open>Reachable windows\<close>

lemma initialMembers_consistent:
  "range_consistent ((initialMembers sizeX sizeY palette clearColor)\<lparr>m_window := h\<rparr>)"
  by (simp add: range_consistent_def initialMembers_def)

lemma Window_new_consistent:
  assumes "Window_new lib sizeX sizeY title palette clearColor = Inr w"
  shows "range_consistent w"
proof -
  obtain sw sh where fb: "framebufferSize lib = (sw, sh)"
    by (cases "framebufferSize lib")
  from assms fb have "w = snd (setScreen_new
      ((initialMembers sizeX sizeY palette clearColor)\<lparr>m_window := glfwCreateWindowResult lib\<rparr>)
      0 (real_of_int sw) 0 (real_of_int sh))"
    by (simp add: Window_new_def Let_def split: sum.splits if_splits)
  then show ?thesis
    by (simp add: setScreen_new_consistent initialMembers_consistent)
qed

lemma reachable_consistent: "reachable w \<Longrightarrow> range_consistent w"
proof (induction rule: reachable.induct)
  case (reachable_Window lib sizeX sizeY title palette clearColor w)
  then show ?case by (rule Window_new_consistent)
next
  case (reachable_setScreen w left right bottom top')
  then show ?case by (simp add: setScreen_new_consistent)
next
  case (reachable_screenshot w filename)
  then show ?case by (simp add: range_consistent_def screenshot_def)
next
  case (reachable_shouldClose w events)
  then show ?case by (simp add: shouldClose_def Let_def glfwPollEvents_consistent)
next
  case (reachable_update w events1 events2)
  then show ?case by (simp add: range_consistent_def update_range_fields)
next
  case (reachable_setScreenSize w width height)
  then show ?case by (simp add: range_consistent_def setScreenSize_def)
qed

lemma example_window_constructed:
  "Window_new example_libraries 640 480 ''plot'' example_palette 0 = Inr example_window"
  by (simp add: Window_new_def example_libraries_def StaticInit_def initialMembers_def
      setScreen_new_def setScreen_body_def screenSizeQuad_def example_window_def Let_def)

lemma example_window_reachable: "reachable example_window"
  using example_window_constructed by (rule reachable_Window)

subsection \<open>The projection\<close>

lemma normalized_scaling:
  "normalized (scaling l r b t) (vec2 x y) = vec2 (2 * x / (r - l)) (2 * y / (t - b))"
  by (simp add: normalized_def gl_Position_def mat4_mul_vec4_def scaling_def)

lemma normalized_screenSizeQuad:
  assumes "l < r" "b < t"
  shows "map (normalized (scaling l r b t)) (screenSizeQuad l r b t) = unit_quad"
  using assms
  by (simp add: screenSizeQuad_def Let_def normalized_scaling unit_quad_def)

lemma corners_iff:
  fixes l r b t :: real
  assumes "l < r" "b < t"
  shows "(normalized (scaling l r b t) (vec2 l b) = vec2 (- 1) (- 1) \<and>
          normalized (scaling l r b t) (vec2 r t) = vec2 1 1) \<longleftrightarrow>
         (l + r = 0 \<and> b + t = 0)"
proof -
  have rl: "r - l \<noteq> 0" and tb: "t - b \<noteq> 0" using assms by simp_all
  have 1: "2 * l / (r - l) = - 1 \<longleftrightarrow> l + r = 0"
    using rl by (auto simp add: field_simps)
  have 2: "2 * r / (r - l) = 1 \<longleftrightarrow> l + r = 0"
    using rl by (auto simp add: field_simps)
  have 3: "2 * b / (t - b) = - 1 \<longleftrightarrow> b + t = 0"
    using tb by (auto simp add: field_simps)
  have 4: "2 * t / (t - b) = 1 \<longleftrightarrow> b + t = 0"
    using tb by (auto simp add: field_simps)
  show ?thesis
    unfolding normalized_scaling vec2.inject 1 2 3 4 by blast
qed


text \<open>
  Claim C2 says that the stored projection maps the point (left, bottom) to (-1, -1) and
  the point (right, top) to (1, 1). For the range 0..2 by 0..2 it is the identity on x and
  y: (0, 0) stays (0, 0) and (2, 2) stays (2, 2), in both revisions.
\<close>

theorem setScreen_projection_counterexample:
  "Window_new example_libraries 640 480 ''plot'' example_palette 0 = Inr example_window \<and>
   normalized (m_projection (snd (setScreen_new example_window 0 2 0 2))) (vec2 0 0) = vec2 0 0 \<and>
   normalized (m_projection (snd (setScreen_new example_window 0 2 0 2))) (vec2 0 0) \<noteq> vec2 (- 1) (- 1) \<and>
   normalized (m_projection (snd (setScreen_new example_window 0 2 0 2))) (vec2 2 2) = vec2 2 2 \<and>
   normalized (m_projection (snd (setScreen_new example_window 0 2 0 2))) (vec2 2 2) \<noteq> vec2 1 1 \<and>
   normalized (m_projection (setScreen_old example_window 0 2 0 2)) (vec2 0 0) = vec2 0 0 \<and>
   normalized (m_projection (setScreen_old example_window 0 2 0 2)) (vec2 2 2) = vec2 2 2"
  by (simp add: Window_new_def example_libraries_def StaticInit_def initialMembers_def
      setScreen_new_def setScreen_old_def setScreen_body_def screenSizeQuad_def
      example_window_def Let_def normalized_def gl_Position_def mat4_mul_vec4_def)

text \<open>
  Claim C2, amended. For every range set by \<^verbatim>\<open>setScreen(left, right, bottom, top)\<close> with
  \<open>left < right\<close> and \<open>bottom < top\<close> (on a reachable window in the second revision, on any
  window in the first), the stored \<open>m_projection\<close> is the scaling with diagonal
  \<open>2 / (right - left)\<close>, \<open>2 / (top - bottom)\<close>, \<open>-1\<close>, \<open>1\<close> and no translation. It maps a
  point \<open>(x, y)\<close> to \<open>(2 x / (right - left), 2 y / (top - bottom))\<close>; it maps the vertices
  of the stored screen size quad, which is centred at the origin, to the corners
  \<open>(\<plusminus>1, \<plusminus>1)\<close>; and it maps (left, bottom) to (-1, -1) and (right, top) to (1, 1) exactly
  when \<open>left + right = 0\<close> and \<open>bottom + top = 0\<close>. (Float arithmetic is taken as exact.)
\<close>

theorem setScreen_projection_is_scaling:
  assumes "reachable w" and "left < right" and "bottom < top'"
  shows "fst (setScreen_new w left right bottom top') = scaling left right bottom top' \<and>
         m_projection (snd (setScreen_new w left right bottom top')) =
           scaling left right bottom top' \<and>
         m_projection (setScreen_old w left right bottom top') =
           scaling left right bottom top' \<and>
         normalized (scaling left right bottom top') (vec2 x y) =
           vec2 (2 * x / (right - left)) (2 * y / (top' - bottom)) \<and>
         map (normalized (scaling left right bottom top'))
           (m_ssq (snd (setScreen_new w left right bottom top'))) = unit_quad \<and>
         ((normalized (scaling left right bottom top') (vec2 left bottom) = vec2 (- 1) (- 1) \<and>
           normalized (scaling left right bottom top') (vec2 right top') = vec2 1 1)
          \<longleftrightarrow> (left + right = 0 \<and> bottom + top' = 0))"
proof -
  let ?w' = "snd (setScreen_new w left right bottom top')"
  have "range_consistent ?w'"
    using assms(1) by (simp add: reachable_consistent setScreen_new_consistent)
  then have stored: "m_projection ?w' = scaling left right bottom top'"
      "m_ssq ?w' = screenSizeQuad left right bottom top'"
    using assms(2) by (auto simp add: range_consistent_def setScreen_new_range)
  have old: "m_projection (setScreen_old w left right bottom top') =
      scaling left right bottom top'"
    by (simp add: setScreen_old_def setScreen_body_fields)
  show ?thesis
    using stored old normalized_scaling [of left right bottom top' x y]
      normalized_screenSizeQuad [OF assms(2,3)] corners_iff [OF assms(2,3)]
    by (simp only: setScreen_new_returns_stored simp_thms)
qed

theorem setScreen_projection_is_scaling_witness:
  "fst (setScreen_new example_window (- 2) 2 (- 1) 1) = [1 / 2, 0, 0, 0, 0, 1, 0, 0, 0, 0, - 1, 0, 0, 0, 0, 1] \<and>
   normalized (m_projection (snd (setScreen_new example_window (- 2) 2 (- 1) 1))) (vec2 (- 2) (- 1))
     = vec2 (- 1) (- 1) \<and>
   normalized (m_projection (snd (setScreen_new example_window (- 2) 2 (- 1) 1))) (vec2 2 1)
     = vec2 1 1 \<and>
   map (normalized (m_projection (snd (setScreen_new example_window (- 2) 2 (- 1) 1))))
     (m_ssq (snd (setScreen_new example_window (- 2) 2 (- 1) 1))) = unit_quad"
proof -
  note r = example_window_reachable
  have lt: "(- 2 :: real) < 2" "(- 1 :: real) < 1" by simp_all
  from setScreen_projection_is_scaling [OF r lt, of 0 0]
  show ?thesis
    by (simp add: scaling_def)
qed

text \<open>
  Claim C6. For every centre \<open>pos\<close> and every \<open>size\<close>, after \<^verbatim>\<open>setScreen(pos, size)\<close> the stored
  range is \<open>m_left = pos.x - size.x/2\<close>, \<open>m_right = pos.x + size.x/2\<close>,
  \<open>m_bottom = pos.y - size.y/2\<close> and \<open>m_top = pos.y + size.y/2\<close>. (The locals named
  \<^verbatim>\<open>top\<close> and \<^verbatim>\<open>bottom\<close> hold the lower and the upper bound and are passed in swapped
  positions, so the members end up as stated.)
\<close>

theorem setScreen_vec2_range:
  "m_left (snd (setScreen_vec2 w pos size')) = vec2_x pos - vec2_x size' / 2 \<and>
   m_right (snd (setScreen_vec2 w pos size')) = vec2_x pos + vec2_x size' / 2 \<and>
   m_bottom (snd (setScreen_vec2 w pos size')) = vec2_y pos - vec2_y size' / 2 \<and>
   m_top (snd (setScreen_vec2 w pos size')) = vec2_y pos + vec2_y size' / 2"
  by (simp add: setScreen_vec2_def Let_def setScreen_new_range)

theorem setScreen_vec2_range_witness:
  "m_left (snd (setScreen_vec2 example_window (vec2 10 20) (vec2 4 6))) = 8 \<and>
   m_right (snd (setScreen_vec2 example_window (vec2 10 20) (vec2 4 6))) = 12 \<and>
   m_bottom (snd (setScreen_vec2 example_window (vec2 10 20) (vec2 4 6))) = 17 \<and>
   m_top (snd (setScreen_vec2 example_window (vec2 10 20) (vec2 4 6))) = 23"
  using setScreen_vec2_range [of example_window "vec2 10 20" "vec2 4 6"]
  by simp

text \<open>
  Claim C8 says that the constructor throws exactly when the window cannot be created.
  In the second revision it also throws, before any window is created, when the audio
  engine cannot be initialised.
\<close>

theorem Window_constructor_counterexample:
  "glfwCreateWindowResult (example_libraries\<lparr>maEngineInitSucceeds := False\<rparr>) \<noteq> 0 \<and>
   Window_new (example_libraries\<lparr>maEngineInitSucceeds := False\<rparr>) 640 480 ''plot''
       example_palette 0 =
     Inl (RuntimeError ''Failed to initialize audio engine!'')"
  by (simp add: Window_new_def example_libraries_def StaticInit_def)

text \<open>
  Claim C8, amended. The constructor of the first revision throws a \<^verbatim>\<open>runtime_error\<close> if
  and only if \<^verbatim>\<open>glfwCreateWindow\<close> returns null. The constructor of the second revision
  throws a \<^verbatim>\<open>runtime_error\<close> if and only if the static initialisation has not been done
  yet and fails (\<^verbatim>\<open>glfwInit\<close> or \<^verbatim>\<open>ma_engine_init\<close>), or \<^verbatim>\<open>glfwCreateWindow\<close> returns null. On
  success either constructor stores the requested width, height, palette and clear
  colour index unchanged, and the created window handle.
\<close>

theorem Window_constructor_failure:
  "((\<exists>msg. Window_old lib sizeX sizeY title palette clearColor = Inl (RuntimeError msg)) \<longleftrightarrow>
      glfwCreateWindowResult lib = 0) \<and>
   ((\<exists>msg. Window_new lib sizeX sizeY title palette clearColor = Inl (RuntimeError msg)) \<longleftrightarrow>
      (\<not> initExists lib \<and> (\<not> glfwInitSucceeds lib \<or> \<not> maEngineInitSucceeds lib)) \<or>
      glfwCreateWindowResult lib = 0) \<and>
   (glfwCreateWindowResult lib \<noteq> 0 \<longrightarrow>
      (\<exists>w. Window_old lib sizeX sizeY title palette clearColor = Inr w)) \<and>
   ((initExists lib \<or> (glfwInitSucceeds lib \<and> maEngineInitSucceeds lib)) \<and>
    glfwCreateWindowResult lib \<noteq> 0 \<longrightarrow>
      (\<exists>w. Window_new lib sizeX sizeY title palette clearColor = Inr w)) \<and>
   (isl (Window_old lib sizeX sizeY title palette clearColor) \<longleftrightarrow>
      glfwCreateWindowResult lib = 0) \<and>
   (isl (Window_new lib sizeX sizeY title palette clearColor) \<longleftrightarrow>
      (\<not> initExists lib \<and> (\<not> glfwInitSucceeds lib \<or> \<not> maEngineInitSucceeds lib)) \<or>
      glfwCreateWindowResult lib = 0) \<and>
   (\<forall>w. Window_old lib sizeX sizeY title palette clearColor = Inr w \<or>
        Window_new lib sizeX sizeY title palette clearColor = Inr w \<longrightarrow>
        m_width w = sizeX \<and> m_height w = sizeY \<and> m_palette w = palette \<and>
        m_clearColor w = clearColor \<and> m_window w = glfwCreateWindowResult lib)"
proof -
  obtain sw sh where fb: "framebufferSize lib = (sw, sh)"
    by (cases "framebufferSize lib")
  have init: "m_width (initialMembers sizeX sizeY palette clearColor) = sizeX"
    "m_height (initialMembers sizeX sizeY palette clearColor) = sizeY"
    "m_palette (initialMembers sizeX sizeY palette clearColor) = palette"
    "m_clearColor (initialMembers sizeX sizeY palette clearColor) = clearColor"
    by (simp_all add: initialMembers_def)
  have 1: "isl (Window_old lib sizeX sizeY title palette clearColor) \<longleftrightarrow>
      glfwCreateWindowResult lib = 0"
    by (simp add: Window_old_def Let_def fb)
  have 2: "isl (Window_new lib sizeX sizeY title palette clearColor) \<longleftrightarrow>
      (\<not> initExists lib \<and> (\<not> glfwInitSucceeds lib \<or> \<not> maEngineInitSucceeds lib)) \<or>
      glfwCreateWindowResult lib = 0"
    by (auto simp add: Window_new_def StaticInit_def Let_def fb split: sum.splits)
  have 3: "m_width w = sizeX \<and> m_height w = sizeY \<and> m_palette w = palette \<and>
        m_clearColor w = clearColor \<and> m_window w = glfwCreateWindowResult lib"
    if "Window_old lib sizeX sizeY title palette clearColor = Inr w" for w
    using that
    by (auto simp add: Window_old_def Let_def fb setScreen_old_def setScreen_body_fields init
        split: if_splits)
  have 4: "m_width w = sizeX \<and> m_height w = sizeY \<and> m_palette w = palette \<and>
        m_clearColor w = clearColor \<and> m_window w = glfwCreateWindowResult lib"
    if "Window_new lib sizeX sizeY title palette clearColor = Inr w" for w
    using that
    by (auto simp add: Window_new_def Let_def fb setScreen_new_other_fields init
        split: if_splits sum.splits)
  have 5: "\<exists>msg. Window_old lib sizeX sizeY title palette clearColor = Inl (RuntimeError msg)"
    if "isl (Window_old lib sizeX sizeY title palette clearColor)"
    using that by (auto simp add: Window_old_def Let_def fb split: if_splits)
  have 6: "\<exists>msg. Window_new lib sizeX sizeY title palette clearColor = Inl (RuntimeError msg)"
    if "isl (Window_new lib sizeX sizeY title palette clearColor)"
    using that
    by (auto simp add: Window_new_def StaticInit_def Let_def fb split: if_splits sum.splits)
  have 7: "(\<exists>msg. Window_old lib sizeX sizeY title palette clearColor = Inl (RuntimeError msg))
      \<longleftrightarrow> glfwCreateWindowResult lib = 0"
    using 1 5 by auto
  have 8: "(\<exists>msg. Window_new lib sizeX sizeY title palette clearColor = Inl (RuntimeError msg))
      \<longleftrightarrow> (\<not> initExists lib \<and> (\<not> glfwInitSucceeds lib \<or> \<not> maEngineInitSucceeds lib)) \<or>
          glfwCreateWindowResult lib = 0"
    using 2 6 by auto
  have 9: "\<exists>w. Window_old lib sizeX sizeY title palette clearColor = Inr w"
    if "glfwCreateWindowResult lib \<noteq> 0"
    using that 1 by (cases "Window_old lib sizeX sizeY title palette clearColor") auto
  have 10: "\<exists>w. Window_new lib sizeX sizeY title palette clearColor = Inr w"
    if "(initExists lib \<or> (glfwInitSucceeds lib \<and> maEngineInitSucceeds lib)) \<and>
        glfwCreateWindowResult lib \<noteq> 0"
    using that 2 by (cases "Window_new lib sizeX sizeY title palette clearColor") auto
  from 1 2 3 4 7 8 9 10 show ?thesis by blast
qed

theorem Window_constructor_failure_witness:
  "Window_new (example_libraries\<lparr>glfwCreateWindowResult := 0\<rparr>) 640 480 ''plot''
       example_palette 0 = Inl (RuntimeError ''Failed to create window!'') \<and>
   Window_old (example_libraries\<lparr>glfwCreateWindowResult := 0\<rparr>) 640 480 ''plot''
       example_palette 0 = Inl (RuntimeError ''Failed to create window!'') \<and>
   Window_new (example_libraries\<lparr>glfwInitSucceeds := False\<rparr>) 640 480 ''plot''
       example_palette 0 = Inl (RuntimeError ''Failed to initialize OpenGL!'') \<and>
   (\<exists>w. Window_new example_libraries 640 480 ''plot'' example_palette 0 = Inr w \<and>
        m_width w = 640 \<and> m_height w = 480 \<and> m_palette w = example_palette \<and>
        m_clearColor w = 0 \<and> m_window w = 1) \<and>
   (\<exists>w. Window_old example_libraries 640 480 ''plot'' example_palette 0 = Inr w \<and>
        m_width w = 640 \<and> m_height w = 480 \<and> m_palette w = example_palette \<and>
        m_clearColor w = 0 \<and> m_window w = 1)"
proof -
  have fail:
    "Window_new (example_libraries\<lparr>glfwCreateWindowResult := 0\<rparr>) 640 480 ''plot''
       example_palette 0 = Inl (RuntimeError ''Failed to create window!'')"
    "Window_old (example_libraries\<lparr>glfwCreateWindowResult := 0\<rparr>) 640 480 ''plot''
       example_palette 0 = Inl (RuntimeError ''Failed to create window!'')"
    "Window_new (example_libraries\<lparr>glfwInitSucceeds := False\<rparr>) 640 480 ''plot''
       example_palette 0 = Inl (RuntimeError ''Failed to initialize OpenGL!'')"
    by (simp_all add: Window_new_def Window_old_def StaticInit_def example_libraries_def
        initialMembers_def)
  have handle: "glfwCreateWindowResult example_libraries = 1"
    "initExists example_libraries \<or>
     (glfwInitSucceeds example_libraries \<and> maEngineInitSucceeds example_libraries)"
    by (simp_all add: example_libraries_def)
  from Window_constructor_failure [of example_libraries 640 480 "''plot''" example_palette 0]
    handle
  have "\<exists>w. Window_new example_libraries 640 480 ''plot'' example_palette 0 = Inr w \<and>
        m_width w = 640 \<and> m_height w = 480 \<and> m_palette w = example_palette \<and>
        m_clearColor w = 0 \<and> m_window w = 1"
    and "\<exists>w. Window_old example_libraries 640 480 ''plot'' example_palette 0 = Inr w \<and>
        m_width w = 640 \<and> m_height w = 480 \<and> m_palette w = example_palette \<and>
        m_clearColor w = 0 \<and> m_window w = 1"
    by (metis One_nat_def zero_neq_one)+
  with fail show ?thesis by simp
qed

text \<open>
  Claim C5. \<^verbatim>\<open>screenshot(filename)\<close> writes no file and records the file name. An
  \<^verbatim>\<open>update\<close> that returns early because the window should close writes nothing and keeps
  the request pending. The next \<^verbatim>\<open>update\<close> that does not return early writes the file
  (exactly one write, of that name) and clears the request, and the \<^verbatim>\<open>update\<close> after it
  writes nothing further. (The empty file name is the value that stands for "no request
  pending": recording it requests nothing and nothing is written.)
\<close>

theorem screenshot_written_by_next_update:
  "pngFiles (screenshot w filename) = pngFiles w \<and>
   m_screenshotFileName (screenshot w filename) = filename \<and>
   (fst (shouldClose (screenshot w filename) events1) \<longrightarrow>
      fst (update (screenshot w filename) events1 events2) = - 1 \<and>
      pngFiles (snd (update (screenshot w filename) events1 events2)) = pngFiles w \<and>
      m_screenshotFileName (snd (update (screenshot w filename) events1 events2)) = filename) \<and>
   (\<not> fst (shouldClose (screenshot w filename) events1) \<longrightarrow>
      pngFiles (snd (update (screenshot w filename) events1 events2)) =
        pngFiles w @ (if filename = [] then [] else [filename]) \<and>
      m_screenshotFileName (snd (update (screenshot w filename) events1 events2)) = [] \<and>
      pngFiles (snd (update (snd (update (screenshot w filename) events1 events2))
                       events3 events4)) =
        pngFiles w @ (if filename = [] then [] else [filename]))"
proof -
  let ?p = "screenshot w filename"
  have p: "pngFiles ?p = pngFiles w" "m_screenshotFileName ?p = filename"
    by (simp_all add: screenshot_def)
  have early: "fst (update ?p events1 events2) = - 1 \<and>
      pngFiles (snd (update ?p events1 events2)) = pngFiles w \<and>
      m_screenshotFileName (snd (update ?p events1 events2)) = filename"
    if "fst (shouldClose ?p events1)"
    using update_early [OF that, of events2] p by simp
  have runs: "pngFiles (snd (update ?p events1 events2)) =
        pngFiles w @ (if filename = [] then [] else [filename]) \<and>
      m_screenshotFileName (snd (update ?p events1 events2)) = [] \<and>
      pngFiles (snd (update (snd (update ?p events1 events2)) events3 events4)) =
        pngFiles w @ (if filename = [] then [] else [filename])"
    if "\<not> fst (shouldClose ?p events1)"
  proof -
    have a: "pngFiles (snd (update ?p events1 events2)) =
        pngFiles w @ (if filename = [] then [] else [filename])"
      using update_runs(1) [OF that, of events2] p by simp
    have b: "m_screenshotFileName (snd (update ?p events1 events2)) = []"
      by (rule update_runs(2) [OF that])
    from update_nothing_pending [OF b, of events3 events4] a b show ?thesis
      by simp
  qed
  from p early runs show ?thesis by blast
qed

theorem screenshot_written_by_next_update_witness:
  "pngFiles (screenshot example_window ''shot.png'') = [] \<and>
   pngFiles (snd (update (screenshot example_window ''shot.png'') [] [])) = [''shot.png''] \<and>
   m_screenshotFileName (snd (update (screenshot example_window ''shot.png'') [] [])) = [] \<and>
   pngFiles (snd (update (snd (update (screenshot example_window ''shot.png'') [] [])) [] []))
     = [''shot.png''] \<and>
   pngFiles (snd (update (screenshot example_window ''shot.png'') [CloseRequest] [])) = [] \<and>
   m_screenshotFileName (snd (update (screenshot example_window ''shot.png'') [CloseRequest] []))
     = ''shot.png''"
  using screenshot_written_by_next_update [of example_window "''shot.png''" "[]" "[]" "[]" "[]"]
    screenshot_written_by_next_update [of example_window "''shot.png''" "[CloseRequest]" "[]"]
  by (simp add: shouldClose_def glfwPollEvents_def screenshot_def example_window_def Let_def)

text \<open>
  Claim C10. In the second revision, for every key code and every state of the two key
  maps (so in particular every reachable one), \<^verbatim>\<open>getKeyPressed\<close> and \<^verbatim>\<open>getKeyReleased\<close> are
  never both true for the same key, and \<^verbatim>\<open>getKeyPressed\<close> true implies \<^verbatim>\<open>getKeyState\<close> true.
\<close>

theorem key_pressed_released_exclusive:
  "\<not> (getKeyPressed w keyCode \<noteq> 0 \<and> getKeyReleased w keyCode \<noteq> 0) \<and>
   (getKeyPressed w keyCode \<noteq> 0 \<longrightarrow> getKeyState w keyCode \<noteq> 0)"
  by (simp add: getKeyPressed_def getKeyReleased_def getKeyState_def)

theorem key_pressed_released_exclusive_witness:
  "getKeyPressed (snd (update example_window [] [KeyEvent 65 GLFW_PRESS])) 65 = 1 \<and>
   getKeyState (snd (update example_window [] [KeyEvent 65 GLFW_PRESS])) 65 = 1 \<and>
   getKeyReleased (snd (update example_window [] [KeyEvent 65 GLFW_PRESS])) 65 = 0"
proof -
  let ?w = "snd (update example_window [] [KeyEvent 65 GLFW_PRESS])"
  have pressed: "getKeyPressed ?w 65 = 1"
    by (simp add: getKeyPressed_def keyState_def update_def shouldClose_def glfwPollEvents_def
        keyCallback_def example_window_def GLFW_PRESS_def GLFW_RELEASE_def GLFW_KEY_ESCAPE_def
        Let_def)
  from key_pressed_released_exclusive [of ?w 65] pressed
  have "getKeyState ?w 65 \<noteq> 0" "getKeyReleased ?w 65 = 0"
    by simp_all
  moreover have "getKeyState ?w 65 = 0 \<or> getKeyState ?w 65 = 1"
    by (simp add: getKeyState_def)
  ultimately show ?thesis using pressed by simp
qed

end
